theory Spec2Isabelle
  imports Complex_Main "HOL-Library.AList"
begin

section \<open>Conventions of the embedding\<close>

text \<open>
  The development embeds two parts of the repository: the validation pipeline of
  \<^verbatim>\<open>NMD/S4_runner.py\<close> and the cross-field validators of the Pydantic models under
  \<^verbatim>\<open>NMD/S4_pydantic/\<close>.

  \<^item> Python \<^verbatim>\<open>int\<close> is \<^typ>\<open>int\<close>.
  \<^item> A \<^verbatim>\<open>float\<close> field of a Pydantic model is the rational number that a finite float
    denotes (\<^typ>\<open>rat\<close>); infinities and NaN, which the bounds of the constrained
    fields exclude, are left out there. A float literal of the source is the exact value
    of the double it denotes, not the decimal it is written as. In the runner, where
    \<^verbatim>\<open>float(s)\<close> may return an infinity or a NaN, a float is of the type \<open>pyfloat\<close>.
    Float multiplication and division round; they are not computed here but taken from
    the environment.
  \<^item> A Python \<^verbatim>\<open>str\<close> whose characters matter one by one is the list of its code
    points; other strings are HOL strings.
  \<^item> A Python dictionary is an association list in insertion order. A store
    \<^verbatim>\<open>d[k] = v\<close> is \<^const>\<open>AList.update\<close>, a lookup is \<^const>\<open>map_of\<close>.
  \<^item> An exception is a value of \<open>py_exn\<close>; a function that may raise returns
    \<open>py_exn + 'a\<close>, with \<^const>\<open>Inl\<close> for the exception.
  \<^item> The f-string messages of the runner are values of the datatype \<open>message\<close>: one
    constructor for each template of the source, carrying the interpolated values.
  \<^item> Clock readings (\<^verbatim>\<open>time.time()\<close>, \<^verbatim>\<open>datetime.utcnow()\<close>) and the answers of the
    warehouse are fields of an explicit environment.
\<close>

datatype py_exn =
    NotFound string          \<comment> \<open>\<^verbatim>\<open>google.api_core.exceptions.NotFound\<close>\<close>
  | OtherError string        \<comment> \<open>any other \<^verbatim>\<open>Exception\<close> raised by the warehouse client\<close>
  | AttributeError string
  | TypeError string
  | ValueError string
  | NameError string

fun exn_text :: "py_exn \<Rightarrow> string" where
  "exn_text (NotFound s) = s"
| "exn_text (OtherError s) = s"
| "exn_text (AttributeError s) = s"
| "exn_text (TypeError s) = s"
| "exn_text (ValueError s) = s"
| "exn_text (NameError s) = s"

subsection \<open>Floats\<close>

datatype pyfloat = Finite rat | PosInf | NegInf | NaN

text \<open>\<^verbatim>\<open>a > b\<close> on floats: false as soon as one side is a NaN.\<close>

definition float_gt :: "pyfloat \<Rightarrow> pyfloat \<Rightarrow> bool" where
  "float_gt a b =
     (case (a, b) of
        (Finite x, Finite y) \<Rightarrow> x > y
      | (Finite x, NegInf) \<Rightarrow> True
      | (PosInf, Finite y) \<Rightarrow> True
      | (PosInf, NegInf) \<Rightarrow> True
      | _ \<Rightarrow> False)"

section \<open>Validation results (class \<^verbatim>\<open>ValidationResult\<close>)\<close>

datatype message =
    NoSchemaContract string                 \<comment> \<open>No schema contract defined for {table}\<close>
  | RequiredFieldMissing string             \<comment> \<open>Required field '{f}' missing from schema\<close>
  | FieldTypeMismatch string string string  \<comment> \<open>Field '{f}' type mismatch: expected {e}, got {a}\<close>
  | TableNotFound string string             \<comment> \<open>Table {table} not found in dataset {dataset}\<close>
  | SchemaValidationFailed string           \<comment> \<open>Schema validation failed: {e}\<close>
  | NoQualityRules string                   \<comment> \<open>No data quality rules defined for {table}\<close>
  | NullCreatedAt int                       \<comment> \<open>Found {n} rows with NULL created_at\<close>
  | FutureCreatedAt int                     \<comment> \<open>Found {n} rows with future created_at\<close>
  | InvalidUpdatedAt int                    \<comment> \<open>Found {n} rows with updated_at < created_at\<close>
  | CouldNotValidateTimestamps string       \<comment> \<open>Could not validate timestamps: {e}\<close>
  | DataConstraintFailed string             \<comment> \<open>Data constraint validation failed: {e}\<close>
  | NoSLAConfig string                      \<comment> \<open>No SLA configuration found for {table}\<close>
  | DataStale pyfloat pyfloat                       \<comment> \<open>Data is stale: {actual}h > {max}h threshold\<close>
  | ApproachingStaleness pyfloat pyfloat            \<comment> \<open>Data approaching staleness: {actual}h > {late}h late threshold\<close>
  | NoTimestampData                         \<comment> \<open>No timestamp data found for freshness check\<close>
  | TableEmpty string                       \<comment> \<open>Table {table} is empty\<close>
  | CouldNotCheckFreshness string           \<comment> \<open>Could not check freshness: {e}\<close>
  | FreshnessValidationFailed string        \<comment> \<open>Freshness validation failed: {e}\<close>

datatype detail =
    DStr string
  | DInt int
  | DFloat pyfloat
  | DDict "(string \<times> detail) list"

record ValidationResult =
  name :: string
  category :: string
  passed :: bool
  errors :: "message list"
  warnings :: "message list"
  details :: "(string \<times> detail) list"
  duration :: rat

text \<open>\<^verbatim>\<open>ValidationResult.__init__(name, category)\<close>\<close>

definition ValidationResult_init :: "string \<Rightarrow> string \<Rightarrow> ValidationResult" where
  "ValidationResult_init n c =
     \<lparr>name = n, category = c, passed = True, errors = [], warnings = [],
      details = [], duration = 0\<rparr>"

definition add_error :: "message \<Rightarrow> ValidationResult \<Rightarrow> ValidationResult" where
  "add_error m r = r\<lparr>errors := errors r @ [m], passed := False\<rparr>"

definition add_warning :: "message \<Rightarrow> ValidationResult \<Rightarrow> ValidationResult" where
  "add_warning m r = r\<lparr>warnings := warnings r @ [m]\<rparr>"

text \<open>
  The two attribute stores that the stage functions perform on a result they are building:
  \<^verbatim>\<open>result.details[k] = v\<close> and \<^verbatim>\<open>result.duration = d\<close>.
\<close>

definition set_detail :: "string \<Rightarrow> detail \<Rightarrow> ValidationResult \<Rightarrow> ValidationResult" where
  "set_detail k v r = r\<lparr>details := AList.update k v (details r)\<rparr>"

definition set_duration :: "rat \<Rightarrow> ValidationResult \<Rightarrow> ValidationResult" where
  "set_duration d r = r\<lparr>duration := d\<rparr>"

text \<open>\<^verbatim>\<open>to_dict\<close> reads the seven attributes and leaves the object as it is.\<close>

definition to_dict ::
  "ValidationResult \<Rightarrow>
     string \<times> string \<times> bool \<times> message list \<times> message list \<times> (string \<times> detail) list \<times> rat" where
  "to_dict r = (name r, category r, passed r, errors r, warnings r, details r, duration r)"

text \<open>Every way in which the source changes a result after its construction.\<close>

datatype mutation =
    AddError message
  | AddWarning message
  | SetDetail string detail
  | SetDuration rat

fun apply_mutation :: "ValidationResult \<Rightarrow> mutation \<Rightarrow> ValidationResult" where
  "apply_mutation r (AddError m) = add_error m r"
| "apply_mutation r (AddWarning m) = add_warning m r"
| "apply_mutation r (SetDetail k v) = set_detail k v r"
| "apply_mutation r (SetDuration d) = set_duration d r"

fun is_method_call :: "mutation \<Rightarrow> bool" where
  "is_method_call (AddError m) = True"
| "is_method_call (AddWarning m) = True"
| "is_method_call (SetDetail k v) = False"
| "is_method_call (SetDuration d) = False"

fun error_of :: "mutation \<Rightarrow> message list" where
  "error_of (AddError m) = [m]"
| "error_of (AddWarning m) = []"
| "error_of (SetDetail k v) = []"
| "error_of (SetDuration d) = []"

fun warning_of :: "mutation \<Rightarrow> message list" where
  "warning_of (AddError m) = []"
| "warning_of (AddWarning m) = [m]"
| "warning_of (SetDetail k v) = []"
| "warning_of (SetDuration d) = []"

section \<open>Configuration documents and the warehouse\<close>

text \<open>
  The three YAML documents are read once by the constructor of the runner; a missing file
  is the empty mapping. Every place of a document where the runner expects a mapping, a
  list or a string holds either such a value or YAML's null, which loads as Python's
  \<^verbatim>\<open>None\<close>: an empty file is a null document, a key with nothing after it is a null
  section. An absent key is the default that \<^verbatim>\<open>.get(key, default)\<close> gives for it.
\<close>

datatype 'a nullable = Null | Val 'a

type_synonym rule_section = "(string \<times> string) list"
type_synonym rule_map = "(string \<times> rule_section nullable) list"

record quality_rules_doc =
  global_rules :: "rule_map nullable"
  table_rules :: "(string \<times> rule_map nullable) list nullable"

text \<open>
  The value of the key \<^verbatim>\<open>schema\<close> of a contract. A field definition is null or a
  mapping, of which only the key \<^verbatim>\<open>type\<close> is read: null, or a string (the empty string
  when the key is absent).
\<close>

record schema_section =
  required_fields :: "string nullable list nullable"
  field_definitions :: "(string \<times> string nullable nullable) list nullable"
    \<comment> \<open>the key \<^verbatim>\<open>fields\<close>\<close>

record contract =
  schema :: "schema_section nullable"

record contracts_doc =
  tables :: "(string \<times> contract nullable) list nullable"

type_synonym sla_entry = "(string \<times> string nullable) list"

record sla_doc =
  freshness_slas :: "(string \<times> (string \<times> sla_entry nullable) list nullable) list nullable"

record datetime =
  wall :: int           \<comment> \<open>the date and time fields, in microseconds since the epoch\<close>
  tzoffset :: "int option"  \<comment> \<open>\<^verbatim>\<open>tzinfo\<close>: \<open>None\<close> for a naive value\<close>

record constraint_row =
  total_rows :: int
  null_created_at :: int
  null_updated_at :: int
  future_created_at :: int
  invalid_updated_at :: int

record freshness_row =
  latest_created_at :: "datetime option"
  latest_updated_at :: "datetime option"
  row_count :: int      \<comment> \<open>the column \<^verbatim>\<open>COUNT(*) as total_rows\<close> of the freshness query\<close>

record env =
  project_id :: string
  dataset_id :: string
  quality_rules :: "quality_rules_doc nullable"
  table_contracts :: "contracts_doc nullable"
  sla_config :: "sla_doc nullable"
  list_tables :: "py_exn + string list"
  get_table :: "string \<Rightarrow> py_exn + (string \<times> string) list"
    \<comment> \<open>\<^verbatim>\<open>client.get_table\<close>: the schema as (name, field_type) pairs, or the exception\<close>
  query_constraints :: "string \<Rightarrow> py_exn + constraint_row list"
  query_freshness :: "string \<Rightarrow> py_exn + freshness_row list"
  utcnow :: "string \<Rightarrow> int"
    \<comment> \<open>\<^verbatim>\<open>datetime.utcnow()\<close> as read while the table is checked, in microseconds\<close>
  elapsed :: "string \<Rightarrow> string \<Rightarrow> rat"
    \<comment> \<open>\<^verbatim>\<open>time.time() - start_time\<close> of the stage (category) on the table\<close>
  py_float :: "string \<Rightarrow> pyfloat option"
    \<comment> \<open>Python's \<^verbatim>\<open>float(s)\<close>; \<open>None\<close> when it raises \<^verbatim>\<open>ValueError\<close>\<close>
  float_mul :: "pyfloat \<Rightarrow> pyfloat \<Rightarrow> pyfloat"
    \<comment> \<open>Python's \<^verbatim>\<open>x * y\<close> on floats\<close>
  float_div :: "pyfloat \<Rightarrow> pyfloat \<Rightarrow> pyfloat"
    \<comment> \<open>Python's \<^verbatim>\<open>x / y\<close> on floats, for a divisor other than zero\<close>
  total_seconds :: "int \<Rightarrow> pyfloat"
    \<comment> \<open>\<^verbatim>\<open>timedelta.total_seconds()\<close> of a difference given in microseconds\<close>
  re_compile :: "string \<Rightarrow> (string \<Rightarrow> bool) option"
    \<comment> \<open>\<^verbatim>\<open>re.compile(p).match\<close>; \<open>None\<close> when the pattern does not compile\<close>

text \<open>The exceptions that Python raises on \<^verbatim>\<open>None\<close> where the runner expects a mapping,
  a list or a string.\<close>

definition none_has_no_get :: py_exn where
  "none_has_no_get = AttributeError ''NoneType object has no attribute get''"

definition none_has_no_items :: py_exn where
  "none_has_no_items = AttributeError ''NoneType object has no attribute items''"

definition none_has_no_upper :: py_exn where
  "none_has_no_upper = AttributeError ''NoneType object has no attribute upper''"

definition none_has_no_endswith :: py_exn where
  "none_has_no_endswith = AttributeError ''NoneType object has no attribute endswith''"

definition none_not_iterable :: py_exn where
  "none_not_iterable = TypeError ''NoneType object is not iterable''"

definition none_not_container :: py_exn where
  "none_not_container = TypeError ''argument of type NoneType is not iterable''"

definition none_not_mapping :: py_exn where
  "none_not_mapping = TypeError ''NoneType object is not a mapping''"

subsection \<open>String and dictionary helpers\<close>

text \<open>\<^verbatim>\<open>str.upper()\<close> on ASCII text.\<close>

definition upper_char :: "char \<Rightarrow> char" where
  "upper_char c =
     (case map_of (zip ''abcdefghijklmnopqrstuvwxyz'' ''ABCDEFGHIJKLMNOPQRSTUVWXYZ'') c of
        None \<Rightarrow> c
      | Some u \<Rightarrow> u)"

definition upper :: "string \<Rightarrow> string" where
  "upper s = map upper_char s"

text \<open>\<^verbatim>\<open>s.replace(c, t)\<close> for a one-character \<open>c\<close>.\<close>

definition replace_char :: "char \<Rightarrow> string \<Rightarrow> string \<Rightarrow> string" where
  "replace_char c t s = concat (map (\<lambda>x. if x = c then t else [x]) s)"

text \<open>\<^verbatim>\<open>s.endswith(c)\<close> for a one-character \<open>c\<close>.\<close>

definition endswith :: "string \<Rightarrow> char \<Rightarrow> bool" where
  "endswith s c = (s \<noteq> [] \<and> last s = c)"

text \<open>\<^verbatim>\<open>{**a, **b}\<close>: the keys of \<open>a\<close> in their order with the values of \<open>b\<close> where both
  have the key, then the new keys of \<open>b\<close>.\<close>

definition dict_merge :: "('k \<times> 'v) list \<Rightarrow> ('k \<times> 'v) list \<Rightarrow> ('k \<times> 'v) list" where
  "dict_merge a b = foldl (\<lambda>d kv. AList.update (fst kv) (snd kv) d) a b"

text \<open>\<^verbatim>\<open>d.get(k, default)\<close>\<close>

definition get_or :: "('k \<times> 'v) list \<Rightarrow> 'k \<Rightarrow> 'v \<Rightarrow> 'v" where
  "get_or d k dflt = (case map_of d k of None \<Rightarrow> dflt | Some v \<Rightarrow> v)"

section \<open>The three stages\<close>

subsection \<open>\<^verbatim>\<open>get_matching_tables\<close>\<close>

definition get_matching_tables :: "env \<Rightarrow> string \<Rightarrow> string list" where
  "get_matching_tables e pattern =
     (case list_tables e of
        Inl ex \<Rightarrow> []
      | Inr tbls \<Rightarrow>
          if pattern = ''*'' then tbls
          else
            (let regex_pattern = replace_char CHR ''?'' ''.'' (replace_char CHR ''*'' ''.*'' pattern)
             in case re_compile e (''^'' @ regex_pattern @ ''$'') of
                  None \<Rightarrow> []
                | Some matches \<Rightarrow> filter matches tbls))"

subsection \<open>\<^verbatim>\<open>validate_schema_compliance\<close>\<close>

text \<open>How an f-string shows an element of \<^verbatim>\<open>required_fields\<close>.\<close>

definition shown :: "string nullable \<Rightarrow> string" where
  "shown v = (case v of Null \<Rightarrow> ''None'' | Val s \<Rightarrow> s)"

text \<open>
  The loop over \<^verbatim>\<open>required_fields\<close>. A null element is \<^verbatim>\<open>None\<close>, which is not a key of
  \<^verbatim>\<open>schema_fields\<close>.
\<close>

definition check_required_fields ::
  "(string \<times> string) list \<Rightarrow> string nullable list \<Rightarrow> ValidationResult \<Rightarrow> ValidationResult" where
  "check_required_fields columns req r =
     foldl (\<lambda>r field_name.
              if (case field_name of Null \<Rightarrow> False | Val f \<Rightarrow> f \<in> set (map fst columns)) then r
              else add_error (RequiredFieldMissing (shown field_name)) r) r req"

text \<open>
  The loop over \<^verbatim>\<open>field_definitions.items()\<close>. \<^verbatim>\<open>schema_fields\<close> is built by a dict
  comprehension, so the last field of a name is the one kept: \<open>map_of (rev columns)\<close>.
  For a field of the table, \<^verbatim>\<open>field_def.get('type', '').upper()\<close> raises when the
  definition or its type is null; the loop ends there, with the errors added so far.
\<close>

fun check_field_types ::
  "(string \<times> string) list \<Rightarrow> (string \<times> string nullable nullable) list \<Rightarrow> ValidationResult
     \<Rightarrow> py_exn option \<times> ValidationResult" where
  "check_field_types columns [] r = (None, r)"
| "check_field_types columns (fd # defs) r =
     (case map_of (rev columns) (fst fd) of
        None \<Rightarrow> check_field_types columns defs r
      | Some actual_type \<Rightarrow>
          (case snd fd of
             Null \<Rightarrow> (Some none_has_no_get, r)
           | Val Null \<Rightarrow> (Some none_has_no_upper, r)
           | Val (Val ty) \<Rightarrow>
               (let expected_type = upper ty
                in check_field_types columns defs
                     (if expected_type \<noteq> [] \<and> actual_type \<noteq> expected_type
                      then add_error (FieldTypeMismatch (fst fd) expected_type actual_type) r
                      else r))))"

text \<open>
  The stage. \<open>failed\<close> is the handler \<^verbatim>\<open>except Exception\<close>, applied to the result as
  it is when the exception is raised.
\<close>

definition validate_schema_compliance :: "env \<Rightarrow> string \<Rightarrow> ValidationResult" where
  "validate_schema_compliance e table_name =
     (let result = ValidationResult_init table_name ''schema_compliance'';
          d = elapsed e ''schema_compliance'' table_name;
          failed = (\<lambda>ex r. set_duration d (add_error (SchemaValidationFailed (exn_text ex)) r))
      in case get_table e table_name of
           Inl (NotFound s) \<Rightarrow>
             set_duration d (add_error (TableNotFound table_name (dataset_id e)) result)
         | Inl ex \<Rightarrow> failed ex result
         | Inr columns \<Rightarrow>
             (case table_contracts e of
                Null \<Rightarrow> failed none_has_no_get result
              | Val doc \<Rightarrow>
                  (case tables doc of
                     Null \<Rightarrow> failed none_not_container result
                   | Val contracts \<Rightarrow>
                       (case map_of contracts table_name of
                          None \<Rightarrow> set_duration d (add_warning (NoSchemaContract table_name) result)
                        | Some Null \<Rightarrow> failed none_has_no_get result
                        | Some (Val c) \<Rightarrow>
                            (case schema c of
                               Null \<Rightarrow> failed none_has_no_get result
                             | Val s \<Rightarrow>
                                 (case required_fields s of
                                    Null \<Rightarrow> failed none_not_iterable result
                                  | Val req \<Rightarrow>
                                      (let r1 = check_required_fields columns req result
                                       in case field_definitions s of
                                            Null \<Rightarrow> failed none_has_no_items r1
                                          | Val defs \<Rightarrow>
                                              (case check_field_types columns defs r1 of
                                                 (Some ex, r2) \<Rightarrow> failed ex r2
                                               | (None, r2) \<Rightarrow>
                                                   set_duration d
                                                     (set_detail ''table_schema''
                                                        (DDict
                                                           [(''field_count'',
                                                               DInt (int (length (remdups (map fst columns))))),
                                                            (''required_fields_checked'',
                                                               DInt (int (length req))),
                                                            (''contract_fields_checked'',
                                                               DInt (int (length (remdups (map fst defs)))))])
                                                        r2)))))))))"

subsection \<open>\<^verbatim>\<open>validate_data_constraints\<close>\<close>

text \<open>The three tests on the first row of the aggregate query, then the details entry.\<close>

definition check_timestamp_row :: "constraint_row \<Rightarrow> ValidationResult \<Rightarrow> ValidationResult" where
  "check_timestamp_row row r =
     (let r1 = (if null_created_at row > 0 then add_error (NullCreatedAt (null_created_at row)) r else r);
          r2 = (if future_created_at row > 0
                then add_error (FutureCreatedAt (future_created_at row)) r1 else r1);
          r3 = (if invalid_updated_at row > 0
                then add_error (InvalidUpdatedAt (invalid_updated_at row)) r2 else r2)
      in set_detail ''timestamp_validation''
           (DDict
              [(''total_rows_checked'', DInt (total_rows row)),
               (''null_created_at'', DInt (null_created_at row)),
               (''future_created_at'', DInt (future_created_at row)),
               (''invalid_updated_at'', DInt (invalid_updated_at row))]) r3)"

text \<open>
  The stage. \<^verbatim>\<open>.get('table_rules', {}).get(table_name, {})\<close> raises on a null section of
  table rules, \<^verbatim>\<open>{**global_rules, **table_rules}\<close> on null global rules or null rules of
  the table, \<^verbatim>\<open>patterns.items()\<close> on a null section of patterns; a null section of
  timestamps is false and skips the query.
\<close>

definition validate_data_constraints :: "env \<Rightarrow> string \<Rightarrow> ValidationResult" where
  "validate_data_constraints e table_name =
     (let result = ValidationResult_init table_name ''data_constraints'';
          d = elapsed e ''data_constraints'' table_name;
          failed = (\<lambda>ex r. set_duration d (add_error (DataConstraintFailed (exn_text ex)) r))
      in case quality_rules e of
           Null \<Rightarrow> failed none_has_no_get result
         | Val doc \<Rightarrow>
             (case table_rules doc of
                Null \<Rightarrow> failed none_has_no_get result
              | Val by_table \<Rightarrow>
                  (case (global_rules doc, get_or by_table table_name (Val [])) of
                     (Val global, Val of_table) \<Rightarrow>
                       (let all_rules = dict_merge global of_table
                        in if all_rules = []
                           then set_duration d (add_warning (NoQualityRules table_name) result)
                           else
                             (case get_or all_rules ''patterns'' (Val []) of
                                Null \<Rightarrow> failed none_has_no_items result
                              | Val patterns \<Rightarrow>
                                  (let r1 = foldl (\<lambda>r p. set_detail (''pattern_'' @ fst p)
                                                      (DStr (''Pattern '' @ snd p @ '' validated'')) r)
                                             result patterns;
                                       timestamp_rules = get_or all_rules ''timestamps'' (Val []);
                                       r2 = (if timestamp_rules \<noteq> Null \<and> timestamp_rules \<noteq> Val []
                                             then (case query_constraints e table_name of
                                                     Inl query_error \<Rightarrow>
                                                       add_warning
                                                         (CouldNotValidateTimestamps (exn_text query_error)) r1
                                                   | Inr rows \<Rightarrow>
                                                       (case rows of
                                                          [] \<Rightarrow> r1
                                                        | row # rest \<Rightarrow> check_timestamp_row row r1))
                                             else r1)
                                   in set_duration d r2)))
                   | _ \<Rightarrow> failed none_not_mapping result)))"

subsection \<open>\<^verbatim>\<open>validate_freshness_sla\<close>\<close>

text \<open>\<^verbatim>\<open>_parse_duration\<close>. The numbers 24 and 60 are Python integers, which the float
  operations take as the floats 24.0 and 60.0.\<close>

definition parse_duration :: "env \<Rightarrow> string \<Rightarrow> py_exn + pyfloat" where
  "parse_duration e duration_str =
     (let num = (\<lambda>s. case py_float e s of
                        None \<Rightarrow> Inl (ValueError (''could not convert string to float: '' @ s))
                      | Some x \<Rightarrow> Inr x)
      in if endswith duration_str CHR ''h'' then num (butlast duration_str)
         else if endswith duration_str CHR ''d''
           then (case num (butlast duration_str) of
                   Inl ex \<Rightarrow> Inl ex
                 | Inr x \<Rightarrow> Inr (float_mul e x (Finite 24)))
         else if endswith duration_str CHR ''m''
           then (case num (butlast duration_str) of
                   Inl ex \<Rightarrow> Inl ex
                 | Inr x \<Rightarrow> Inr (float_div e x (Finite 60)))
         else num duration_str)"

text \<open>The call \<^verbatim>\<open>self._parse_duration(v)\<close> on a value of the SLA entry: on \<^verbatim>\<open>None\<close> the
  first \<^verbatim>\<open>endswith\<close> raises.\<close>

definition parse_duration_of :: "env \<Rightarrow> string nullable \<Rightarrow> py_exn + pyfloat" where
  "parse_duration_of e v =
     (case v of Null \<Rightarrow> Inl none_has_no_endswith | Val s \<Rightarrow> parse_duration e s)"

text \<open>
  The scan of the categories \<^verbatim>\<open>['live_data_tables', 'core_tables']\<close>; the first category
  that has the table ends the loop. \<^verbatim>\<open>table_name in freshness_slas[category]\<close> raises on
  a null category. The result is the entry found, which may be null, or \<open>None\<close> when no
  category has the table.
\<close>

fun find_sla ::
  "(string \<times> (string \<times> sla_entry nullable) list nullable) list \<Rightarrow> string \<Rightarrow> string list
     \<Rightarrow> py_exn + sla_entry nullable option" where
  "find_sla slas table_name [] = Inr None"
| "find_sla slas table_name (c # cs) =
     (case map_of slas c of
        None \<Rightarrow> find_sla slas table_name cs
      | Some Null \<Rightarrow> Inl none_not_container
      | Some (Val tbls) \<Rightarrow>
          (case map_of tbls table_name of
             None \<Rightarrow> find_sla slas table_name cs
           | Some entry \<Rightarrow> Inr (Some entry)))"

text \<open>\<^verbatim>\<open>row.latest_updated_at or row.latest_created_at\<close>: a \<^verbatim>\<open>datetime\<close> is always true, so
  the first operand is taken unless it is \<^verbatim>\<open>None\<close>.\<close>

definition latest_timestamp :: "freshness_row \<Rightarrow> datetime option" where
  "latest_timestamp row =
     (case latest_updated_at row of Some u \<Rightarrow> Some u | None \<Rightarrow> latest_created_at row)"

text \<open>
  \<^verbatim>\<open>time_diff\<close>, in microseconds. For a naive timestamp it is \<^verbatim>\<open>now - latest_timestamp\<close>;
  for an aware one \<^verbatim>\<open>now\<close> is given the timestamp's own \<^verbatim>\<open>tzinfo\<close>, and the difference
  of two values with the same \<^verbatim>\<open>tzinfo\<close> is the difference of their date and time
  fields as well.
\<close>

definition time_diff :: "int \<Rightarrow> datetime \<Rightarrow> int" where
  "time_diff now ts =
     (case tzoffset ts of
        None \<Rightarrow> now - wall ts
      | Some off \<Rightarrow> (now - off) - (wall ts - off))"

text \<open>\<^verbatim>\<open>time_diff.total_seconds() / 3600\<close>, a float division by the integer 3600.\<close>

definition staleness_hours_actual :: "env \<Rightarrow> int \<Rightarrow> datetime \<Rightarrow> pyfloat" where
  "staleness_hours_actual e now ts =
     float_div e (total_seconds e (time_diff now ts)) (Finite 3600)"

definition check_freshness_row ::
  "env \<Rightarrow> int \<Rightarrow> pyfloat \<Rightarrow> pyfloat \<Rightarrow> string \<Rightarrow> freshness_row list \<Rightarrow> ValidationResult
     \<Rightarrow> ValidationResult" where
  "check_freshness_row e now staleness_hours threshold_hours table_name rows r =
     (case rows of
        [] \<Rightarrow> add_warning (TableEmpty table_name) r
      | row # rest \<Rightarrow>
          if row_count row > 0 then
            (case latest_timestamp row of
               None \<Rightarrow> add_warning NoTimestampData r
             | Some ts \<Rightarrow>
                 (let actual = staleness_hours_actual e now ts;
                      r1 = set_detail ''freshness_check''
                             (DDict
                                [(''latest_timestamp'', DInt (wall ts)),
                                 (''staleness_hours'', DFloat actual),
                                 (''max_allowed_hours'', DFloat staleness_hours),
                                 (''total_rows'', DInt (row_count row))]) r
                  in if float_gt actual staleness_hours
                       then add_warning (DataStale actual staleness_hours) r1
                     else if float_gt actual threshold_hours
                       then add_warning (ApproachingStaleness actual threshold_hours) r1
                     else r1))
          else add_warning (TableEmpty table_name) r)"

text \<open>The stage. Both handlers add a warning; \<open>failed\<close> is the outer one.\<close>

definition validate_freshness_sla :: "env \<Rightarrow> string \<Rightarrow> ValidationResult" where
  "validate_freshness_sla e table_name =
     (let result = ValidationResult_init table_name ''freshness_sla'';
          d = elapsed e ''freshness_sla'' table_name;
          failed = (\<lambda>ex. set_duration d
                            (add_warning (FreshnessValidationFailed (exn_text ex)) result));
          no_sla = set_duration d (add_warning (NoSLAConfig table_name) result)
      in case sla_config e of
           Null \<Rightarrow> failed none_has_no_get
         | Val doc \<Rightarrow>
             (case freshness_slas doc of
                Null \<Rightarrow> failed none_not_container
              | Val slas \<Rightarrow>
                  (case find_sla slas table_name [''live_data_tables'', ''core_tables''] of
                     Inl ex \<Rightarrow> failed ex
                   | Inr None \<Rightarrow> no_sla
                   | Inr (Some Null) \<Rightarrow> no_sla
                   | Inr (Some (Val entry)) \<Rightarrow>
                       if entry = [] then no_sla
                       else
                         (case parse_duration_of e (get_or entry ''max_staleness'' (Val ''24h'')) of
                            Inl ex \<Rightarrow> failed ex
                          | Inr staleness_hours \<Rightarrow>
                              (case parse_duration_of e
                                      (get_or entry ''late_arrival_threshold'' (Val ''12h'')) of
                                 Inl ex \<Rightarrow> failed ex
                               | Inr threshold_hours \<Rightarrow>
                                   (case query_freshness e table_name of
                                      Inl query_error \<Rightarrow>
                                        set_duration d
                                          (add_warning
                                             (CouldNotCheckFreshness (exn_text query_error)) result)
                                    | Inr rows \<Rightarrow>
                                        set_duration d
                                          (check_freshness_row e (utcnow e table_name)
                                             staleness_hours threshold_hours table_name rows
                                             result)))))))"

section \<open>The run: \<^verbatim>\<open>run_validation\<close>, exit code and summary\<close>

definition EXIT_SUCCESS :: int where "EXIT_SUCCESS = 0"
definition EXIT_HARD_FAILURE :: int where "EXIT_HARD_FAILURE = 1"
definition EXIT_SOFT_FAILURE :: int where "EXIT_SOFT_FAILURE = 2"

text \<open>\<^verbatim>\<open>_determine_exit_code\<close>, on \<^verbatim>\<open>self.results\<close>\<close>

definition determine_exit_code :: "ValidationResult list \<Rightarrow> string \<Rightarrow> int" where
  "determine_exit_code results fail_on =
     (let has_errors = list_ex (\<lambda>r. \<not> passed r) results;
          has_warnings = list_ex (\<lambda>r. warnings r \<noteq> []) results
      in if has_errors then EXIT_HARD_FAILURE
         else if fail_on = ''warn'' \<and> has_warnings then EXIT_SOFT_FAILURE
         else EXIT_SUCCESS)"

record category_counts =
  n_passed :: int
  n_failed :: int
  n_warnings :: int

record summary =
  summary_project_id :: string
  summary_dataset_id :: string
  total_checks :: int
  passed_checks :: int
  failed_checks :: int
  total_warnings :: int
  total_errors :: int
  by_category :: "(string \<times> category_counts) list"

text \<open>The body of the loop that groups the results by category.\<close>

definition count_result ::
  "(string \<times> category_counts) list \<Rightarrow> ValidationResult \<Rightarrow> (string \<times> category_counts) list" where
  "count_result bc r =
     (let bc1 = (if category r \<notin> set (map fst bc)
                 then AList.update (category r) \<lparr>n_passed = 0, n_failed = 0, n_warnings = 0\<rparr> bc
                 else bc);
          cur = get_or bc1 (category r) \<lparr>n_passed = 0, n_failed = 0, n_warnings = 0\<rparr>;
          cur1 = (if passed r then cur\<lparr>n_passed := n_passed cur + 1\<rparr>
                  else cur\<lparr>n_failed := n_failed cur + 1\<rparr>)
      in AList.update (category r)
           (cur1\<lparr>n_warnings := n_warnings cur1 + int (length (warnings r))\<rparr>) bc1)"

text \<open>
  \<^verbatim>\<open>_generate_summary\<close>: the counts and the grouping. The entries \<^verbatim>\<open>timestamp\<close> (a clock
  reading), \<^verbatim>\<open>success_rate\<close> (a formatted percentage) and \<^verbatim>\<open>results\<close> (the results
  again, through \<^verbatim>\<open>to_dict\<close>) of the Python dictionary are left out.
\<close>

definition generate_summary :: "env \<Rightarrow> ValidationResult list \<Rightarrow> summary" where
  "generate_summary e results =
     (let total = int (length results);
          n_ok = int (length (filter passed results))
      in \<lparr>summary_project_id = project_id e,
          summary_dataset_id = dataset_id e,
          total_checks = total,
          passed_checks = n_ok,
          failed_checks = total - n_ok,
          total_warnings = sum_list (map (\<lambda>r. int (length (warnings r))) results),
          total_errors = sum_list (map (\<lambda>r. int (length (errors r))) results),
          by_category = foldl count_result [] results\<rparr>)"

datatype report = NoMatchingTablesFound | Report summary

text \<open>The body of the loop over the tables: three appends to \<^verbatim>\<open>self.results\<close>.\<close>

definition validate_table :: "env \<Rightarrow> ValidationResult list \<Rightarrow> string \<Rightarrow> ValidationResult list" where
  "validate_table e results table_name =
     (let results1 = results @ [validate_schema_compliance e table_name];
          results2 = results1 @ [validate_data_constraints e table_name];
          results3 = results2 @ [validate_freshness_sla e table_name]
      in results3)"

text \<open>
  \<^verbatim>\<open>run_validation(table_pattern, fail_on)\<close>. The second argument is \<^verbatim>\<open>self.results\<close> before
  the call; the result is the returned pair and \<^verbatim>\<open>self.results\<close> after the call.
\<close>

definition run_validation ::
  "env \<Rightarrow> ValidationResult list \<Rightarrow> string \<Rightarrow> string \<Rightarrow> (int \<times> report) \<times> ValidationResult list" where
  "run_validation e results table_pattern fail_on =
     (let tables = get_matching_tables e table_pattern
      in if tables = [] then ((EXIT_HARD_FAILURE, NoMatchingTablesFound), results)
         else
           (let results' = foldl (validate_table e) results tables
            in ((determine_exit_code results' fail_on, Report (generate_summary e results')),
                results')))"

text \<open>\<^verbatim>\<open>ValidationRunner.__init__\<close> sets \<^verbatim>\<open>self.results = []\<close>; \<^verbatim>\<open>main\<close> builds one runner
  and calls \<^verbatim>\<open>run_validation\<close> on it once.\<close>

definition main_run :: "env \<Rightarrow> string \<Rightarrow> string \<Rightarrow> (int \<times> report) \<times> ValidationResult list" where
  "main_run e table_pattern fail_on = run_validation e [] table_pattern fail_on"

section \<open>Cross-field validators of the Pydantic models\<close>

text \<open>
  A model validator of mode \<^verbatim>\<open>after\<close> receives the instance whose fields have passed
  their own constraints and returns a value or raises. \<^verbatim>\<open>ValueError\<close> is what Pydantic
  turns into a validation error; any other exception leaves the constructor as it is.
  The validators of a class run in the order of their definition, each on the value the
  one before returned.
\<close>

definition bind_exn :: "py_exn + 'a \<Rightarrow> ('a \<Rightarrow> py_exn + 'b) \<Rightarrow> py_exn + 'b" where
  "bind_exn x f = (case x of Inl ex \<Rightarrow> Inl ex | Inr v \<Rightarrow> f v)"

text \<open>Truth value of an \<^verbatim>\<open>Optional[int]\<close> and \<^verbatim>\<open>x or 0\<close>.\<close>

definition truthy_int :: "int option \<Rightarrow> bool" where
  "truthy_int x = (case x of None \<Rightarrow> False | Some v \<Rightarrow> v \<noteq> 0)"

definition or_zero :: "int option \<Rightarrow> int" where
  "or_zero x = (case x of None \<Rightarrow> 0 | Some v \<Rightarrow> if v \<noteq> 0 then v else 0)"

subsection \<open>\<^verbatim>\<open>parts_inventory_model.InventoryInfo\<close>\<close>

record InventoryInfo =
  quantity_on_hand :: "int option"
  quantity_allocated :: "int option"
  quantity_available :: "int option"
  reorder_point :: "int option"
  reorder_quantity :: "int option"
  max_stock_level :: "int option"
  last_received_date :: "int option"
  last_sold_date :: "int option"
  turnover_rate :: "rat option"

definition validate_inventory_consistency :: "InventoryInfo \<Rightarrow> py_exn + InventoryInfo" where
  "validate_inventory_consistency model =
     (let on_hand = or_zero (quantity_on_hand model);
          allocated = or_zero (quantity_allocated model);
          available = or_zero (quantity_available model);
          model1 = (if available \<noteq> on_hand - allocated
                    then model\<lparr>quantity_available := Some (on_hand - allocated)\<rparr>
                    else model)
      in if allocated > on_hand
           then Inl (ValueError ''Allocated quantity cannot exceed quantity on hand'')
         else if truthy_int (reorder_point model1) \<and> truthy_int (max_stock_level model1)
                 \<and> or_zero (reorder_point model1) \<ge> or_zero (max_stock_level model1)
           then Inl (ValueError ''Reorder point must be less than max stock level'')
         else if truthy_int (reorder_quantity model1) \<and> truthy_int (max_stock_level model1)
                 \<and> or_zero (reorder_quantity model1) > or_zero (max_stock_level model1)
           then Inl (ValueError ''Reorder quantity cannot exceed max stock level'')
         else Inr model1)"

subsection \<open>\<^verbatim>\<open>diagnostic_sessions_model.DiagnosticCode\<close>\<close>










subsection \<open>\<^verbatim>\<open>maintenance_predictions_model.RiskAssessment\<close>\<close>

record RiskAssessment =
  overall_risk_score :: "rat option"
  failure_probability :: "rat option"
  confidence_level :: "rat option"
  risk_level :: "string option"
  financial_impact :: "rat option"
  downtime_impact_hours :: "rat option"
  safety_impact_score :: "rat option"
  environmental_impact_score :: "rat option"

text \<open>
  The float literals of the table of thresholds, each the exact value of the double that
  Python reads it as (\<^verbatim>\<open>(0.3).as_integer_ratio()\<close> and so on); 0.0 and 1.0 are 0 and 1.
\<close>

definition float_0_2 :: rat where "float_0_2 = 3602879701896397 / 18014398509481984"
definition float_0_3 :: rat where "float_0_3 = 5404319552844595 / 18014398509481984"
definition float_0_6 :: rat where "float_0_6 = 5404319552844595 / 9007199254740992"
definition float_0_7 :: rat where "float_0_7 = 3152519739159347 / 4503599627370496"
definition float_0_8 :: rat where "float_0_8 = 3602879701896397 / 4503599627370496"
definition float_0_9 :: rat where "float_0_9 = 8106479329266893 / 9007199254740992"

definition thresholds :: "(string \<times> rat \<times> rat) list" where
  "thresholds =
     [(''low'', (0, float_0_3)),
      (''medium'', (float_0_2, float_0_7)),
      (''high'', (float_0_6, float_0_9)),
      (''critical'', (float_0_8, 1))]"

definition validate_risk_consistency :: "RiskAssessment \<Rightarrow> py_exn + RiskAssessment" where
  "validate_risk_consistency model =
     (case overall_risk_score model of
        None \<Rightarrow> Inr model
      | Some risk_score \<Rightarrow>
          (case risk_level model of
             None \<Rightarrow> Inr model
           | Some level \<Rightarrow>
               if level = [] then Inr model
               else
                 (let (min_score, max_score) = get_or thresholds level (0, 1)
                  in if \<not> (min_score \<le> risk_score \<and> risk_score \<le> max_score)
                     then Inl (ValueError ''Risk score inconsistent with risk level'')
                     else Inr model)))"

subsection \<open>\<^verbatim>\<open>maintenance_predictions_model.MaintenancePredictions\<close>\<close>

record MaintenanceRecommendation =
  action :: string
  description :: string
  estimated_cost :: "rat option"
  currency_code :: "string option"

text \<open>The fields that the validators of the class read. Dates are day numbers, timestamps
  are microseconds.\<close>

record MaintenancePredictions =
  prediction_date :: int
  predicted_failure_date :: "int option"
  predicted_maintenance_date :: "int option"
  priority :: "string option"
  status :: "string option"
  risk_assessment :: "RiskAssessment option"
  recommendation :: "MaintenanceRecommendation option"
  symptoms_detected :: "string list option"
  acknowledged_at :: "int option"
  scheduled_maintenance_date :: "int option"
  completed_at :: "int option"
  created_at :: int
  updated_at :: int
  expires_at :: "int option"

definition validate_prediction_dates :: "MaintenancePredictions \<Rightarrow> py_exn + MaintenancePredictions" where
  "validate_prediction_dates model =
     (let prediction_date = prediction_date model;
          predicted_failure = predicted_failure_date model;
          predicted_maintenance = predicted_maintenance_date model;
          scheduled_maintenance = scheduled_maintenance_date model
      in if (case predicted_failure of None \<Rightarrow> False | Some f \<Rightarrow> f \<le> prediction_date)
           then Inl (ValueError ''Predicted failure date must be after prediction date'')
         else if (case (predicted_maintenance, predicted_failure) of
                    (Some pm, Some f) \<Rightarrow> pm \<ge> f | _ \<Rightarrow> False)
           then Inl (ValueError ''Predicted maintenance date should be before predicted failure date'')
         else if (case scheduled_maintenance of None \<Rightarrow> False | Some s \<Rightarrow> s < prediction_date)
           then Inl (ValueError ''Scheduled maintenance date cannot be before prediction date'')
         else Inr model)"

definition validate_status_transitions :: "MaintenancePredictions \<Rightarrow> py_exn + MaintenancePredictions" where
  "validate_status_transitions model =
     (if status model = Some ''acknowledged'' \<and> acknowledged_at model = None
        then Inl (ValueError ''acknowledged_at required when status is acknowledged'')
      else if status model = Some ''scheduled'' \<and> scheduled_maintenance_date model = None
        then Inl (ValueError ''scheduled_maintenance_date required when status is scheduled'')
      else if status model = Some ''completed'' \<and> completed_at model = None
        then Inl (ValueError ''completed_at required when status is completed'')
      else Inr model)"

text \<open>The comparison against the financial thresholds ends in \<^verbatim>\<open>pass\<close> on both sides.\<close>

definition validate_risk_financial_consistency ::
  "MaintenancePredictions \<Rightarrow> py_exn + MaintenancePredictions" where
  "validate_risk_financial_consistency model = Inr model"

text \<open>The body of \<^verbatim>\<open>validate_expiration_reasonable\<close> is its docstring: it returns
  \<^verbatim>\<open>None\<close>.\<close>

definition validate_expiration_reasonable ::
  "MaintenancePredictions \<Rightarrow> py_exn + MaintenancePredictions option" where
  "validate_expiration_reasonable model = Inr None"

text \<open>
  \<^verbatim>\<open>validate_symptoms_limit\<close> starts with \<^verbatim>\<open>if v and len(v) > 50\<close>. Its parameters are
  \<^verbatim>\<open>cls\<close> and \<^verbatim>\<open>model\<close> and the module binds no \<^verbatim>\<open>v\<close>: reading the name raises
  \<^verbatim>\<open>NameError\<close>, whatever the argument.
\<close>

definition validate_symptoms_limit ::
  "MaintenancePredictions option \<Rightarrow> py_exn + MaintenancePredictions option" where
  "validate_symptoms_limit model = Inl (NameError ''name v is not defined'')"

text \<open>
  \<^verbatim>\<open>validate_updated_after_created\<close> reads \<^verbatim>\<open>model.created_at\<close>, then, the timestamp being
  true, the unbound \<^verbatim>\<open>v\<close>.
\<close>

definition validate_updated_after_created ::
  "MaintenancePredictions option \<Rightarrow> py_exn + MaintenancePredictions option" where
  "validate_updated_after_created model =
     (case model of
        None \<Rightarrow> Inl (AttributeError ''NoneType object has no attribute created_at'')
      | Some m \<Rightarrow> Inl (NameError ''name v is not defined''))"

definition validate_prediction_completeness ::
  "MaintenancePredictions option \<Rightarrow> py_exn + MaintenancePredictions option" where
  "validate_prediction_completeness model =
     (case model of
        None \<Rightarrow> Inl (AttributeError ''NoneType object has no attribute priority'')
      | Some m \<Rightarrow>
          if priority m \<in> {Some ''high'', Some ''urgent''} then
            (if risk_assessment m = None
               then Inl (ValueError ''High/urgent priority predictions must include risk assessment'')
             else if recommendation m = None
               then Inl (ValueError ''High/urgent priority predictions must include recommendations'')
             else Inr model)
          else Inr model)"

text \<open>The seven validators of the class, in the order of their definition.\<close>

definition MaintenancePredictions_validate ::
  "MaintenancePredictions \<Rightarrow> py_exn + MaintenancePredictions option" where
  "MaintenancePredictions_validate model =
     bind_exn (bind_exn (bind_exn (bind_exn (bind_exn (bind_exn
       (validate_prediction_dates model)
       validate_status_transitions)
       validate_risk_financial_consistency)
       validate_expiration_reasonable)
       validate_symptoms_limit)
       validate_updated_after_created)
       validate_prediction_completeness"

subsection \<open>\<^verbatim>\<open>feature_store_model.StatisticalProfile\<close>\<close>

datatype scalar = SNum rat | SStr string

record StatisticalProfile =
  min_value :: "scalar option"
  max_value :: "scalar option"
  mean_value :: "rat option"
  median_value :: "rat option"
  std_deviation :: "rat option"
  percentile_25 :: "rat option"
  percentile_75 :: "rat option"
  percentile_95 :: "rat option"
  unique_count :: "int option"
  most_frequent_value :: "scalar option"
  cardinality :: "int option"

text \<open>
  \<^verbatim>\<open>validate_std_deviation_non_negative\<close> is \<^verbatim>\<open>if v is not None and v < 0: ...\<close> with the
  parameters \<^verbatim>\<open>cls\<close> and \<^verbatim>\<open>model\<close>: the name \<^verbatim>\<open>v\<close> is unbound.
\<close>

definition validate_std_deviation_non_negative ::
  "StatisticalProfile \<Rightarrow> py_exn + StatisticalProfile" where
  "validate_std_deviation_non_negative model = Inl (NameError ''name v is not defined'')"

definition validate_percentile_order :: "StatisticalProfile \<Rightarrow> py_exn + StatisticalProfile" where
  "validate_percentile_order model =
     (let p25 = percentile_25 model; p75 = percentile_75 model; p95 = percentile_95 model
      in if (case (p25, p75) of (Some a, Some b) \<Rightarrow> a > b | _ \<Rightarrow> False)
           then Inl (ValueError ''25th percentile cannot exceed 75th percentile'')
         else if (case (p75, p95) of (Some b, Some c) \<Rightarrow> b > c | _ \<Rightarrow> False)
           then Inl (ValueError ''75th percentile cannot exceed 95th percentile'')
         else Inr model)"

text \<open>The two validators of the class, in the order of their definition.\<close>

definition StatisticalProfile_validate :: "StatisticalProfile \<Rightarrow> py_exn + StatisticalProfile" where
  "StatisticalProfile_validate model =
     bind_exn (validate_std_deviation_non_negative model) validate_percentile_order"

section \<open>The statements of the specification that are compared with the code\<close>

text \<open>
  Staleness as the specification words it: now minus the more recent of the two maxima,
  falling back to \<^verbatim>\<open>created_at\<close> when \<^verbatim>\<open>updated_at\<close> is absent, in hours. \<open>None\<close>
  when the row has neither.
\<close>

definition spec_staleness_hours :: "int \<Rightarrow> freshness_row \<Rightarrow> rat option" where
  "spec_staleness_hours now row =
     (case (latest_created_at row, latest_updated_at row) of
        (Some c, Some u) \<Rightarrow> Some (of_int (now - max (wall c) (wall u)) / 1000000 / 3600)
      | (Some c, None) \<Rightarrow> Some (of_int (now - wall c) / 1000000 / 3600)
      | (None, Some u) \<Rightarrow> Some (of_int (now - wall u) / 1000000 / 3600)
      | (None, None) \<Rightarrow> None)"

text \<open>The warnings that go with a staleness: stale, approaching staleness, or none.\<close>

definition freshness_warnings :: "pyfloat \<Rightarrow> pyfloat \<Rightarrow> pyfloat \<Rightarrow> message list" where
  "freshness_warnings actual max_h late_h =
     (if float_gt actual max_h then [DataStale actual max_h]
      else if float_gt actual late_h then [ApproachingStaleness actual late_h]
      else [])"

text \<open>The risk bands as the specification lists them, its decimals being the float
  literals of that spelling.\<close>

fun spec_band :: "string \<Rightarrow> (rat \<times> rat) option" where
  "spec_band level =
     (if level = ''low'' then Some (0, float_0_3)
      else if level = ''medium'' then Some (float_0_2, float_0_7)
      else if level = ''high'' then Some (float_0_6, float_0_9)
      else if level = ''critical'' then Some (float_0_8, 1)
      else None)"




section \<open>A sample environment\<close>

text \<open>
  One hour in microseconds, and a warehouse with three tables. \<^verbatim>\<open>users\<close> has a
  contract, rules and an SLA of 24h (late after 12h); the row that the freshness query
  returns for it is a parameter, its clock reading is hour 100. \<^verbatim>\<open>orders\<close> has no
  contract and no SLA, and the queries on it fail. The lookup of \<^verbatim>\<open>parts\<close> times out,
  and every other table is unknown to the warehouse. The sample \<^verbatim>\<open>float\<close> is Python's on
  strings of digits, the sample \<^verbatim>\<open>re.compile\<close> is Python's on patterns without
  metacharacters between \<^verbatim>\<open>^\<close> and \<^verbatim>\<open>$\<close>. The sample float operations compute the exact
  result on finite operands: they are Python's wherever that result is a float, as it is
  for the whole hours and whole seconds of the samples.
\<close>

definition hour :: int where
  "hour = 3600000000"

definition digit_char :: "char \<Rightarrow> bool" where
  "digit_char c = (c \<in> set ''0123456789'')"

definition digit_value :: "char \<Rightarrow> nat" where
  "digit_value c =
     (case map_of (zip ''0123456789'' [0, 1, 2, 3, 4, 5, 6, 7, 8, 9]) c of
        None \<Rightarrow> 0
      | Some d \<Rightarrow> d)"

definition float_of_digits :: "string \<Rightarrow> pyfloat option" where
  "float_of_digits s =
     (if s \<noteq> [] \<and> list_all digit_char s
      then Some (Finite (of_nat (foldl (\<lambda>a c. 10 * a + digit_value c) 0 s)))
      else None)"

definition exact_mul :: "pyfloat \<Rightarrow> pyfloat \<Rightarrow> pyfloat" where
  "exact_mul x y = (case (x, y) of (Finite a, Finite b) \<Rightarrow> Finite (a * b) | _ \<Rightarrow> NaN)"

definition exact_div :: "pyfloat \<Rightarrow> pyfloat \<Rightarrow> pyfloat" where
  "exact_div x y = (case (x, y) of (Finite a, Finite b) \<Rightarrow> Finite (a / b) | _ \<Rightarrow> NaN)"

definition exact_seconds :: "int \<Rightarrow> pyfloat" where
  "exact_seconds us = Finite (of_int us / 1000000)"

definition literal_regex :: "string \<Rightarrow> (string \<Rightarrow> bool) option" where
  "literal_regex p = Some (\<lambda>t. ''^'' @ t @ ''$'' = p)"

definition sample_row :: "int \<Rightarrow> int \<Rightarrow> freshness_row" where
  "sample_row created_hours_ago updated_hours_ago =
     \<lparr>latest_created_at = Some \<lparr>wall = (100 - created_hours_ago) * hour, tzoffset = Some 0\<rparr>,
      latest_updated_at = Some \<lparr>wall = (100 - updated_hours_ago) * hour, tzoffset = Some 0\<rparr>,
      row_count = 10\<rparr>"

definition sample_contracts :: "(string \<times> contract nullable) list" where
  "sample_contracts =
     [(''users'',
       Val \<lparr>schema = Val \<lparr>required_fields = Val [Val ''id'', Val ''email''],
                           field_definitions = Val [(''id'', Val (Val ''string''))]\<rparr>\<rparr>)]"

definition sample_rules :: quality_rules_doc where
  "sample_rules =
     \<lparr>global_rules = Val [(''timestamps'', Val [(''created_at_required'', ''true'')])],
      table_rules = Val []\<rparr>"

definition sample_sla_entry :: sla_entry where
  "sample_sla_entry = [(''max_staleness'', Val ''24h''), (''late_arrival_threshold'', Val ''12h'')]"

definition sample_slas :: "(string \<times> (string \<times> sla_entry nullable) list nullable) list" where
  "sample_slas = [(''core_tables'', Val [(''users'', Val sample_sla_entry)])]"

definition sample_env :: "freshness_row \<Rightarrow> env" where
  "sample_env row =
     \<lparr>project_id = ''proj'',
      dataset_id = ''prod'',
      quality_rules = Val sample_rules,
      table_contracts = Val \<lparr>tables = Val sample_contracts\<rparr>,
      sla_config = Val \<lparr>freshness_slas = Val sample_slas\<rparr>,
      list_tables = Inr [''users'', ''orders'', ''parts''],
      get_table =
        (\<lambda>t. if t = ''users'' then Inr [(''id'', ''STRING''), (''email'', ''STRING'')]
             else if t = ''orders'' then Inr [(''id'', ''INTEGER'')]
             else if t = ''parts'' then Inl (OtherError ''timeout'')
             else Inl (NotFound t)),
      query_constraints =
        (\<lambda>t. if t = ''users''
             then Inr [\<lparr>total_rows = 10, null_created_at = 0, null_updated_at = 0,
                        future_created_at = 0, invalid_updated_at = 0\<rparr>]
             else Inl (NotFound t)),
      query_freshness = (\<lambda>t. if t = ''users'' then Inr [row] else Inl (NotFound t)),
      utcnow = (\<lambda>t. 100 * hour),
      elapsed = (\<lambda>c t. 1 / 2),
      py_float = float_of_digits,
      float_mul = exact_mul,
      float_div = exact_div,
      total_seconds = exact_seconds,
      re_compile = literal_regex\<rparr>"

text \<open>The same environment with both rule sets of the quality rules empty.\<close>

definition sample_env_no_rules :: env where
  "sample_env_no_rules =
     (sample_env (sample_row 1 30))\<lparr>quality_rules := Val \<lparr>global_rules = Val [], table_rules = Val []\<rparr>\<rparr>"

text \<open>The same environment with a freshness query that fails on every table.\<close>

definition fresh_fail_env :: env where
  "fresh_fail_env =
     (sample_env (sample_row 1 30))\<lparr>query_freshness := (\<lambda>t. Inl (NotFound t))\<rparr>"

text \<open>The same environment with the key \<^verbatim>\<open>tables\<close> of the contracts present and null,
  and with the key \<^verbatim>\<open>global_rules\<close> of the quality rules present and null.\<close>

definition null_sections_env :: env where
  "null_sections_env =
     (sample_env (sample_row 1 30))
       \<lparr>quality_rules := Val \<lparr>global_rules = Null, table_rules = Val []\<rparr>,
        table_contracts := Val \<lparr>tables = Null\<rparr>\<rparr>"

text \<open>Sample records of the Pydantic models.\<close>

definition sample_inventory :: "int \<Rightarrow> int \<Rightarrow> int \<Rightarrow> InventoryInfo" where
  "sample_inventory on_hand allocated available =
     \<lparr>quantity_on_hand = Some on_hand, quantity_allocated = Some allocated,
      quantity_available = Some available, reorder_point = None, reorder_quantity = None,
      max_stock_level = None, last_received_date = None, last_sold_date = None,
      turnover_rate = None\<rparr>"

definition sample_risk :: "rat \<Rightarrow> string \<Rightarrow> RiskAssessment" where
  "sample_risk score level =
     \<lparr>overall_risk_score = Some score, failure_probability = None, confidence_level = None,
      risk_level = Some level, financial_impact = None, downtime_impact_hours = None,
      safety_impact_score = None, environmental_impact_score = None\<rparr>"

text \<open>A prediction with the required fields and the defaults of the optional ones
  (\<^verbatim>\<open>priority\<close> is \<^verbatim>\<open>medium\<close>), of the given status and completion timestamp.\<close>

definition sample_prediction :: "string \<Rightarrow> int option \<Rightarrow> MaintenancePredictions" where
  "sample_prediction st completed =
     \<lparr>prediction_date = 20347, predicted_failure_date = None,
      predicted_maintenance_date = None, priority = Some ''medium'', status = Some st,
      risk_assessment = None, recommendation = None, symptoms_detected = Some [],
      acknowledged_at = None, scheduled_maintenance_date = None, completed_at = completed,
      created_at = 20347 * 24 * hour, updated_at = 20347 * 24 * hour, expires_at = None\<rparr>"

definition sample_profile :: "rat \<Rightarrow> rat \<Rightarrow> rat option \<Rightarrow> StatisticalProfile" where
  "sample_profile p25 p75 p95 =
     \<lparr>min_value = None, max_value = None, mean_value = None, median_value = None,
      std_deviation = None, percentile_25 = Some p25, percentile_75 = Some p75,
      percentile_95 = p95, unique_count = None, most_frequent_value = None,
      cardinality = None\<rparr>"

text \<open>The three results of one table, in the order in which \<^const>\<open>validate_table\<close>
  appends them.\<close>

definition stage_results :: "env \<Rightarrow> string \<Rightarrow> ValidationResult list" where
  "stage_results e t =
     [validate_schema_compliance e t, validate_data_constraints e t, validate_freshness_sla e t]"

section \<open>Properties of a single result\<close>

lemma foldl_keeps:
  assumes "\<And>r x. P (f r x) = P r"
  shows "P (foldl f r xs) = P r"
  using assms by (induction xs arbitrary: r) simp_all

lemma name_simps [simp]:
  "name (add_error m r) = name r" "name (add_warning m r) = name r"
  "name (set_detail k v r) = name r" "name (set_duration d r) = name r"
  "name (ValidationResult_init n c) = n"
  by (simp_all add: add_error_def add_warning_def set_detail_def set_duration_def
        ValidationResult_init_def)

lemma category_simps [simp]:
  "category (add_error m r) = category r" "category (add_warning m r) = category r"
  "category (set_detail k v r) = category r" "category (set_duration d r) = category r"
  "category (ValidationResult_init n c) = c"
  by (simp_all add: add_error_def add_warning_def set_detail_def set_duration_def
        ValidationResult_init_def)

lemma passed_simps [simp]:
  "passed (add_error m r) = False" "passed (add_warning m r) = passed r"
  "passed (set_detail k v r) = passed r" "passed (set_duration d r) = passed r"
  "passed (ValidationResult_init n c) = True"
  by (simp_all add: add_error_def add_warning_def set_detail_def set_duration_def
        ValidationResult_init_def)

lemma errors_simps [simp]:
  "errors (add_error m r) = errors r @ [m]" "errors (add_warning m r) = errors r"
  "errors (set_detail k v r) = errors r" "errors (set_duration d r) = errors r"
  "errors (ValidationResult_init n c) = []"
  by (simp_all add: add_error_def add_warning_def set_detail_def set_duration_def
        ValidationResult_init_def)

lemma warnings_simps [simp]:
  "warnings (add_error m r) = warnings r" "warnings (add_warning m r) = warnings r @ [m]"
  "warnings (set_detail k v r) = warnings r" "warnings (set_duration d r) = warnings r"
  "warnings (ValidationResult_init n c) = []"
  by (simp_all add: add_error_def add_warning_def set_detail_def set_duration_def
        ValidationResult_init_def)

lemma apply_mutation_fields:
  "passed (apply_mutation r m) = (passed r \<and> error_of m = [])"
  "errors (apply_mutation r m) = errors r @ error_of m"
  "warnings (apply_mutation r m) = warnings r @ warning_of m"
  "name (apply_mutation r m) = name r"
  "category (apply_mutation r m) = category r"
  by (cases m; simp)+

lemma foldl_mutation_fields:
  "passed (foldl apply_mutation r ms) = (passed r \<and> concat (map error_of ms) = [])"
  "errors (foldl apply_mutation r ms) = errors r @ concat (map error_of ms)"
  "warnings (foldl apply_mutation r ms) = warnings r @ concat (map warning_of ms)"
  "name (foldl apply_mutation r ms) = name r"
  "category (foldl apply_mutation r ms) = category r"
  by (induction ms arbitrary: r; auto simp add: apply_mutation_fields)+

text \<open>Calls of the two methods leave \<^verbatim>\<open>details\<close> and \<^verbatim>\<open>duration\<close> as they are.\<close>

lemma method_calls_keep_details:
  "list_all is_method_call ms \<Longrightarrow>
     details (foldl apply_mutation r ms) = details r
     \<and> duration (foldl apply_mutation r ms) = duration r"
proof (induction ms arbitrary: r)
  case Nil
  show ?case by simp
next
  case (Cons m ms)
  then show ?case
    by (cases m) (simp_all add: add_error_def add_warning_def)
qed

text \<open>
  Claim C3, as amended. A result is changed after its construction by \<^verbatim>\<open>add_error\<close>, by
  \<^verbatim>\<open>add_warning\<close>, and by the stores to \<^verbatim>\<open>details\<close> and \<^verbatim>\<open>duration\<close> of the stage that
  builds it. For every sequence of such changes applied to a fresh result: \<^verbatim>\<open>passed\<close> is
  true exactly when no error has been added, \<^verbatim>\<open>errors\<close> and \<^verbatim>\<open>warnings\<close> are the added
  messages in order, and name and category stay. \<^verbatim>\<open>add_error\<close> makes \<^verbatim>\<open>passed\<close> false,
  \<^verbatim>\<open>add_warning\<close> and the two stores never change it, and the stores change neither
  \<^verbatim>\<open>errors\<close> nor \<^verbatim>\<open>warnings\<close>.
\<close>

theorem result_mutations:
  "passed (foldl apply_mutation (ValidationResult_init n c) ms) = (concat (map error_of ms) = [])
   \<and> errors (foldl apply_mutation (ValidationResult_init n c) ms) = concat (map error_of ms)
   \<and> warnings (foldl apply_mutation (ValidationResult_init n c) ms) = concat (map warning_of ms)
   \<and> name (foldl apply_mutation (ValidationResult_init n c) ms) = n
   \<and> category (foldl apply_mutation (ValidationResult_init n c) ms) = c
   \<and> \<not> passed (add_error m r)
   \<and> passed (add_warning m r) = passed r
   \<and> passed (set_detail k v r) = passed r
   \<and> errors (set_detail k v r) = errors r
   \<and> warnings (set_detail k v r) = warnings r
   \<and> passed (set_duration d r) = passed r
   \<and> errors (set_duration d r) = errors r
   \<and> warnings (set_duration d r) = warnings r"
  by (simp add: foldl_mutation_fields)

text \<open>The theorem at two sequences: a warning and a store keep \<^verbatim>\<open>passed\<close>; one error
  among warnings clears it.\<close>

theorem result_mutations_witness:
  "passed (foldl apply_mutation (ValidationResult_init ''users'' ''freshness_sla'')
             [AddWarning (TableEmpty ''users''), SetDuration 1])
   \<and> \<not> passed (foldl apply_mutation (ValidationResult_init ''users'' ''schema_compliance'')
             [AddWarning (NoSchemaContract ''users''), AddError (RequiredFieldMissing ''id''),
              AddWarning NoTimestampData])"
  using
    result_mutations [of "''users''" "''freshness_sla''"
      "[AddWarning (TableEmpty ''users''), SetDuration 1]"]
    result_mutations [of "''users''" "''schema_compliance''"
      "[AddWarning (NoSchemaContract ''users''), AddError (RequiredFieldMissing ''id''),
        AddWarning NoTimestampData]"]
  by simp

text \<open>
  Claim C3 as stated fails: the schema stage on the sample table \<^verbatim>\<open>users\<close> returns a result
  on which neither method has been called (no error, no warning), and whose \<^verbatim>\<open>details\<close>
  and \<^verbatim>\<open>duration\<close> are no longer those of its construction.
\<close>

theorem details_written_directly:
  "errors (validate_schema_compliance (sample_env (sample_row 1 30)) ''users'') = []
   \<and> warnings (validate_schema_compliance (sample_env (sample_row 1 30)) ''users'') = []
   \<and> details (validate_schema_compliance (sample_env (sample_row 1 30)) ''users'')
       \<noteq> details (ValidationResult_init ''users'' ''schema_compliance'')
   \<and> duration (validate_schema_compliance (sample_env (sample_row 1 30)) ''users'')
       \<noteq> duration (ValidationResult_init ''users'' ''schema_compliance'')"
  by (simp add: validate_schema_compliance_def sample_env_def sample_contracts_def
      ValidationResult_init_def check_required_fields_def upper_def upper_char_def
      set_detail_def set_duration_def add_error_def add_warning_def Let_def)

section \<open>Properties of the run\<close>

lemma name_check_required_fields [simp]: "name (check_required_fields s req r) = name r"
  unfolding check_required_fields_def by (rule foldl_keeps) simp

lemma category_check_required_fields [simp]:
  "category (check_required_fields s req r) = category r"
  unfolding check_required_fields_def by (rule foldl_keeps) simp

lemma name_check_field_types [simp]: "name (snd (check_field_types s defs r)) = name r"
  by (induction s defs r rule: check_field_types.induct)
     (simp_all add: Let_def split: option.split nullable.split)

lemma category_check_field_types [simp]:
  "category (snd (check_field_types s defs r)) = category r"
  by (induction s defs r rule: check_field_types.induct)
     (simp_all add: Let_def split: option.split nullable.split)

lemma check_field_types_cases:
  obtains ex r2 where "check_field_types s defs r = (ex, r2)" "name r2 = name r"
    "category r2 = category r"
  using name_check_field_types [of s defs r] category_check_field_types [of s defs r]
  by (cases "check_field_types s defs r") simp

lemma schema_identity:
  "name (validate_schema_compliance e t) = t"
  "category (validate_schema_compliance e t) = ''schema_compliance''"
proof -
  have "name (validate_schema_compliance e t) = t
        \<and> category (validate_schema_compliance e t) = ''schema_compliance''"
  proof (cases "get_table e t")
    case (Inl ex)
    then show ?thesis
      by (simp add: validate_schema_compliance_def Let_def split: py_exn.split)
  next
    case (Inr columns)
    show ?thesis
    proof (cases "table_contracts e")
      case Null
      with Inr show ?thesis by (simp add: validate_schema_compliance_def Let_def)
    next
      case (Val doc)
      show ?thesis
      proof (cases "tables doc")
        case Null
        with Inr Val show ?thesis by (simp add: validate_schema_compliance_def Let_def)
      next
        case contracts: (Val contracts)
        show ?thesis
        proof (cases "map_of contracts t")
          case None
          with Inr Val contracts show ?thesis
            by (simp add: validate_schema_compliance_def Let_def)
        next
          case (Some entry)
          show ?thesis
          proof (cases entry)
            case Null
            with Inr Val contracts Some show ?thesis
              by (simp add: validate_schema_compliance_def Let_def)
          next
            case c: (Val c)
            show ?thesis
            proof (cases "schema c")
              case Null
              with Inr Val contracts Some c show ?thesis
                by (simp add: validate_schema_compliance_def Let_def)
            next
              case sec: (Val sec)
              show ?thesis
              proof (cases "required_fields sec")
                case Null
                with Inr Val contracts Some c sec show ?thesis
                  by (simp add: validate_schema_compliance_def Let_def)
              next
                case req: (Val req)
                show ?thesis
                proof (cases "field_definitions sec")
                  case Null
                  with Inr Val contracts Some c sec req show ?thesis
                    by (simp add: validate_schema_compliance_def Let_def)
                next
                  case defs: (Val defs)
                  obtain ex r2 where r2:
                    "check_field_types columns defs
                       (check_required_fields columns req
                          (ValidationResult_init t ''schema_compliance'')) = (ex, r2)"
                    "name r2 = t" "category r2 = ''schema_compliance''"
                    by (rule check_field_types_cases
                          [of columns defs "check_required_fields columns req
                             (ValidationResult_init t ''schema_compliance'')"]) simp
                  with Inr Val contracts Some c sec req defs show ?thesis
                    by (simp add: validate_schema_compliance_def Let_def split: option.split)
                qed
              qed
            qed
          qed
        qed
      qed
    qed
  qed
  then show "name (validate_schema_compliance e t) = t"
    and "category (validate_schema_compliance e t) = ''schema_compliance''"
    by simp_all
qed

lemma name_check_timestamp_row [simp]: "name (check_timestamp_row row r) = name r"
  by (simp add: check_timestamp_row_def Let_def)

lemma category_check_timestamp_row [simp]: "category (check_timestamp_row row r) = category r"
  by (simp add: check_timestamp_row_def Let_def)

lemma name_pattern_details [simp]:
  "name (foldl (\<lambda>r p. set_detail (g p) (h p) r) r ps) = name r"
  by (rule foldl_keeps) simp

lemma category_pattern_details [simp]:
  "category (foldl (\<lambda>r p. set_detail (g p) (h p) r) r ps) = category r"
  by (rule foldl_keeps) simp

lemma constraints_identity:
  "name (validate_data_constraints e t) = t"
  "category (validate_data_constraints e t) = ''data_constraints''"
  by (simp_all add: validate_data_constraints_def Let_def
        split: sum.split list.split option.split nullable.split prod.split)

lemma name_check_freshness_row [simp]:
  "name (check_freshness_row e now a b t rows r) = name r"
  by (simp add: check_freshness_row_def Let_def split: list.split option.split)

lemma category_check_freshness_row [simp]:
  "category (check_freshness_row e now a b t rows r) = category r"
  by (simp add: check_freshness_row_def Let_def split: list.split option.split)

lemma freshness_identity:
  "name (validate_freshness_sla e t) = t"
  "category (validate_freshness_sla e t) = ''freshness_sla''"
  by (simp_all add: validate_freshness_sla_def Let_def
        split: sum.split option.split nullable.split)

lemma foldl_validate_table:
  "foldl (validate_table e) rs ts = rs @ concat (map (stage_results e) ts)"
  by (induction ts arbitrary: rs) (simp_all add: validate_table_def stage_results_def)

lemma length_concat_stage_results: "length (concat (map (stage_results e) ts)) = 3 * length ts"
  by (induction ts) (simp_all add: stage_results_def)

lemma identity_concat_stage_results:
  "map (\<lambda>r. (name r, category r)) (concat (map (stage_results e) ts))
     = concat (map (\<lambda>t. [(t, ''schema_compliance''), (t, ''data_constraints''),
                           (t, ''freshness_sla'')]) ts)"
  by (induction ts)
     (simp_all add: stage_results_def schema_identity constraints_identity freshness_identity)

lemma sample_tables:
  "get_matching_tables (sample_env row) ''*'' = [''users'', ''orders'', ''parts'']"
  "get_matching_tables (sample_env row) ''users'' = [''users'']"
  "get_matching_tables (sample_env row) ''nothing'' = []"
  by (simp_all add: get_matching_tables_def sample_env_def replace_char_def literal_regex_def)

text \<open>
  Claim C1. The exit code is a function of the accumulated results and of \<^verbatim>\<open>fail_on\<close>:
  1 when some result has not passed, whatever \<^verbatim>\<open>fail_on\<close>; otherwise 2 when \<^verbatim>\<open>fail_on\<close>
  is \<^verbatim>\<open>warn\<close> and some result carries a warning; otherwise 0. When no table matches the
  pattern, the run returns 1 and the list of results is the one it started with: no
  check has been appended. When some table matches, the returned code is that function
  of the results after the run.
\<close>

theorem exit_code_policy:
  "determine_exit_code rs f =
     (if \<exists>r \<in> set rs. \<not> passed r then 1
      else if f = ''warn'' \<and> (\<exists>r \<in> set rs. warnings r \<noteq> []) then 2
      else 0)
   \<and> (get_matching_tables e p = [] \<longrightarrow>
        run_validation e rs p f = ((1, NoMatchingTablesFound), rs))
   \<and> (get_matching_tables e p \<noteq> [] \<longrightarrow>
        fst (fst (run_validation e rs p f))
          = determine_exit_code (snd (run_validation e rs p f)) f)"
  by (auto simp add: determine_exit_code_def run_validation_def Let_def list_ex_iff
        EXIT_SUCCESS_def EXIT_HARD_FAILURE_def EXIT_SOFT_FAILURE_def)

text \<open>
  The exit-code matrix on concrete results: no warning gives 0; one warning gives 0 under
  \<^verbatim>\<open>error\<close> and 2 under \<^verbatim>\<open>warn\<close>; a failed result gives 1 under both; and a pattern that
  matches no table of the sample warehouse gives 1 with no result appended.
\<close>

theorem exit_code_policy_witness:
  "determine_exit_code [ValidationResult_init ''users'' ''schema_compliance''] ''warn'' = 0
   \<and> determine_exit_code
        [add_warning (TableEmpty ''users'') (ValidationResult_init ''users'' ''freshness_sla'')]
        ''error'' = 0
   \<and> determine_exit_code
        [add_warning (TableEmpty ''users'') (ValidationResult_init ''users'' ''freshness_sla'')]
        ''warn'' = 2
   \<and> determine_exit_code
        [add_warning (TableEmpty ''users'') (ValidationResult_init ''users'' ''freshness_sla''),
         add_error (RequiredFieldMissing ''id'') (ValidationResult_init ''users'' ''schema_compliance'')]
        ''warn'' = 1
   \<and> determine_exit_code
        [add_error (RequiredFieldMissing ''id'') (ValidationResult_init ''users'' ''schema_compliance'')]
        ''error'' = 1
   \<and> get_matching_tables (sample_env (sample_row 1 30)) ''nothing'' = []
   \<and> run_validation (sample_env (sample_row 1 30)) [] ''nothing'' ''warn''
        = ((1, NoMatchingTablesFound), [])"
  using
    exit_code_policy [of "[ValidationResult_init ''users'' ''schema_compliance'']" "''warn''"]
    exit_code_policy [of
      "[add_warning (TableEmpty ''users'') (ValidationResult_init ''users'' ''freshness_sla'')]"
      "''error''"]
    exit_code_policy [of
      "[add_warning (TableEmpty ''users'') (ValidationResult_init ''users'' ''freshness_sla'')]"
      "''warn''"]
    exit_code_policy [of
      "[add_warning (TableEmpty ''users'') (ValidationResult_init ''users'' ''freshness_sla''),
        add_error (RequiredFieldMissing ''id'') (ValidationResult_init ''users'' ''schema_compliance'')]"
      "''warn''"]
    exit_code_policy [of
      "[add_error (RequiredFieldMissing ''id'') (ValidationResult_init ''users'' ''schema_compliance'')]"
      "''error''" "sample_env (sample_row 1 30)" "''nothing''"]
    exit_code_policy [of "[]" "''warn''" "sample_env (sample_row 1 30)" "''nothing''"]
  by (simp add: sample_tables)

text \<open>
  Claim C10. In a run whose pattern matches a non-empty list of tables, the results after
  the run are the results before it followed by three results for each matched table, in
  the order of the tables and, for each table, in the order schema_compliance,
  data_constraints, freshness_sla, each with the table as its name. A run on a new runner
  therefore ends with three times as many results as tables, and that is the
  \<^verbatim>\<open>total_checks\<close> of its summary.
\<close>

theorem three_results_per_table:
  assumes "get_matching_tables e p = ts" and "ts \<noteq> []"
  shows "snd (run_validation e rs p f) = rs @ concat (map (stage_results e) ts)
    \<and> length (snd (main_run e p f)) = 3 * length ts
    \<and> map (\<lambda>r. (name r, category r)) (snd (main_run e p f))
        = concat (map (\<lambda>t. [(t, ''schema_compliance''), (t, ''data_constraints''),
                              (t, ''freshness_sla'')]) ts)
    \<and> (\<exists>s. snd (fst (main_run e p f)) = Report s \<and> total_checks s = 3 * int (length ts))"
  using assms
  by (simp add: run_validation_def main_run_def Let_def foldl_validate_table
        length_concat_stage_results identity_concat_stage_results generate_summary_def)

text \<open>The theorem on the sample warehouse with the pattern that selects its three tables:
  nine results.\<close>

theorem three_results_per_table_witness:
  "get_matching_tables (sample_env (sample_row 1 30)) ''*'' = [''users'', ''orders'', ''parts'']
   \<and> [''users'', ''orders'', ''parts''] \<noteq> []
   \<and> length (snd (main_run (sample_env (sample_row 1 30)) ''*'' ''error'')) = 9
   \<and> map (\<lambda>r. (name r, category r)) (snd (main_run (sample_env (sample_row 1 30)) ''*'' ''error''))
       = [(''users'', ''schema_compliance''), (''users'', ''data_constraints''),
          (''users'', ''freshness_sla''),
          (''orders'', ''schema_compliance''), (''orders'', ''data_constraints''),
          (''orders'', ''freshness_sla''),
          (''parts'', ''schema_compliance''), (''parts'', ''data_constraints''),
          (''parts'', ''freshness_sla'')]"
  using three_results_per_table [of "sample_env (sample_row 1 30)" "''*''"
          "[''users'', ''orders'', ''parts'']" "[]" "''error''"]
  by (simp add: sample_tables)

section \<open>Properties of the stages\<close>

lemma pattern_details_keep [simp]:
  "passed (foldl (\<lambda>r p. set_detail (g p) (h p) r) r ps) = passed r"
  "errors (foldl (\<lambda>r p. set_detail (g p) (h p) r) r ps) = errors r"
  "warnings (foldl (\<lambda>r p. set_detail (g p) (h p) r) r ps) = warnings r"
  by (rule foldl_keeps, simp)+

lemma check_freshness_row_soft:
  "passed (check_freshness_row e now a b t rows r) = passed r"
  "errors (check_freshness_row e now a b t rows r) = errors r"
  by (simp_all add: check_freshness_row_def Let_def split: list.split option.split)

lemma freshness_never_fails:
  "passed (validate_freshness_sla e t)" "errors (validate_freshness_sla e t) = []"
  by (simp_all add: validate_freshness_sla_def Let_def check_freshness_row_soft
        split: sum.split option.split nullable.split)

lemma schema_lookup_raises:
  assumes "get_table e t = Inl ex"
  shows "\<not> passed (validate_schema_compliance e t)"
    and "warnings (validate_schema_compliance e t) = []"
    and "errors (validate_schema_compliance e t) =
          [case ex of NotFound s \<Rightarrow> TableNotFound t (dataset_id e)
                    | _ \<Rightarrow> SchemaValidationFailed (exn_text ex)]"
  using assms by (simp_all add: validate_schema_compliance_def Let_def split: py_exn.split)

lemma schema_no_contract:
  assumes "get_table e t = Inr cols" "table_contracts e = Val doc" "tables doc = Val cs"
    "map_of cs t = None"
  shows "passed (validate_schema_compliance e t)"
    and "errors (validate_schema_compliance e t) = []"
    and "warnings (validate_schema_compliance e t) = [NoSchemaContract t]"
  using assms by (simp_all add: validate_schema_compliance_def Let_def)

lemma schema_null_tables:
  assumes "get_table e t = Inr cols" "table_contracts e = Val doc" "tables doc = Null"
  shows "\<not> passed (validate_schema_compliance e t)"
    and "errors (validate_schema_compliance e t)
           = [SchemaValidationFailed (exn_text none_not_container)]"
  using assms by (simp_all add: validate_schema_compliance_def Let_def)

lemma get_or_merge_nonempty:
  "get_or all_rules k (Val []) = Val ts \<Longrightarrow> ts \<noteq> [] \<Longrightarrow> all_rules \<noteq> []"
  by (auto simp add: get_or_def)

lemma constraints_query_raises:
  assumes "quality_rules e = Val doc" "table_rules doc = Val by_table"
    "global_rules doc = Val g" "get_or by_table t (Val []) = Val tr"
    "get_or (dict_merge g tr) ''patterns'' (Val []) = Val ps"
    "get_or (dict_merge g tr) ''timestamps'' (Val []) = Val ts" "ts \<noteq> []"
    "query_constraints e t = Inl ex"
  shows "passed (validate_data_constraints e t)"
    and "errors (validate_data_constraints e t) = []"
    and "warnings (validate_data_constraints e t) = [CouldNotValidateTimestamps (exn_text ex)]"
  using assms get_or_merge_nonempty [OF assms(6,7)]
  by (simp_all add: validate_data_constraints_def Let_def)

lemma constraints_no_rules:
  assumes "quality_rules e = Val doc" "table_rules doc = Val by_table"
    "global_rules doc = Val g" "get_or by_table t (Val []) = Val tr"
    "dict_merge g tr = []"
  shows "passed (validate_data_constraints e t)"
    and "errors (validate_data_constraints e t) = []"
    and "warnings (validate_data_constraints e t) = [NoQualityRules t]"
  using assms by (simp_all add: validate_data_constraints_def Let_def)

lemma constraints_null_global_rules:
  assumes "quality_rules e = Val doc" "table_rules doc = Val by_table"
    "global_rules doc = Null"
  shows "\<not> passed (validate_data_constraints e t)"
    and "errors (validate_data_constraints e t)
           = [DataConstraintFailed (exn_text none_not_mapping)]"
  using assms by (simp_all add: validate_data_constraints_def Let_def split: nullable.split)

lemma freshness_query_raises:
  assumes "sla_config e = Val doc" "freshness_slas doc = Val slas"
    "find_sla slas t [''live_data_tables'', ''core_tables''] = Inr (Some (Val entry))"
    "entry \<noteq> []"
    "parse_duration_of e (get_or entry ''max_staleness'' (Val ''24h'')) = Inr M"
    "parse_duration_of e (get_or entry ''late_arrival_threshold'' (Val ''12h'')) = Inr L"
    "query_freshness e t = Inl ex"
  shows "warnings (validate_freshness_sla e t) = [CouldNotCheckFreshness (exn_text ex)]"
  using assms by (simp add: validate_freshness_sla_def Let_def)

lemma freshness_no_sla:
  assumes "sla_config e = Val doc" "freshness_slas doc = Val slas"
    "find_sla slas t [''live_data_tables'', ''core_tables''] = Inr None
     \<or> find_sla slas t [''live_data_tables'', ''core_tables''] = Inr (Some Null)
     \<or> find_sla slas t [''live_data_tables'', ''core_tables''] = Inr (Some (Val []))"
  shows "warnings (validate_freshness_sla e t) = [NoSLAConfig t]"
  using assms by (auto simp add: validate_freshness_sla_def Let_def)

lemma time_diff_eq: "time_diff now ts = now - wall ts"
  by (simp add: time_diff_def split: option.split)

lemma staleness_hours_actual_eq:
  "staleness_hours_actual e now ts = float_div e (total_seconds e (now - wall ts)) (Finite 3600)"
  by (simp add: staleness_hours_actual_def time_diff_eq)

lemma freshness_row_checked:
  assumes "sla_config e = Val doc" "freshness_slas doc = Val slas"
    "find_sla slas t [''live_data_tables'', ''core_tables''] = Inr (Some (Val entry))"
    "entry \<noteq> []"
    "parse_duration_of e (get_or entry ''max_staleness'' (Val ''24h'')) = Inr M"
    "parse_duration_of e (get_or entry ''late_arrival_threshold'' (Val ''12h'')) = Inr L"
    "query_freshness e t = Inr (row # rest)" "row_count row > 0"
    "latest_timestamp row = Some ts"
  shows "warnings (validate_freshness_sla e t)
           = freshness_warnings (staleness_hours_actual e (utcnow e t) ts) M L"
  using assms
  by (simp add: validate_freshness_sla_def Let_def check_freshness_row_def freshness_warnings_def)

lemma sample_env_fields:
  "py_float (sample_env row) = float_of_digits"
  "float_mul (sample_env row) = exact_mul"
  "float_div (sample_env row) = exact_div"
  "total_seconds (sample_env row) = exact_seconds"
  "sla_config (sample_env row) = Val \<lparr>freshness_slas = Val sample_slas\<rparr>"
  "quality_rules (sample_env row) = Val sample_rules"
  "table_contracts (sample_env row) = Val \<lparr>tables = Val sample_contracts\<rparr>"
  "query_freshness (sample_env row) ''users'' = Inr [row]"
  "utcnow (sample_env row) ''users'' = 100 * hour"
  "dataset_id (sample_env row) = ''prod''"
  by (simp_all add: sample_env_def)

lemma sample_durations:
  "parse_duration (sample_env row) ''24h'' = Inr (Finite 24)"
  "parse_duration (sample_env row) ''12h'' = Inr (Finite 12)"
  "parse_duration (sample_env row) ''2d'' = Inr (Finite 48)"
  "parse_duration (sample_env row) ''30m'' = Inr (Finite (1 / 2))"
  "parse_duration (sample_env row) ''7'' = Inr (Finite 7)"
  "parse_duration (sample_env row) ''soon''
     = Inl (ValueError ''could not convert string to float: soon'')"
  by (simp_all add: parse_duration_def endswith_def float_of_digits_def digit_char_def
        digit_value_def Let_def sample_env_fields exact_mul_def exact_div_def)

lemma sample_find_sla:
  "find_sla sample_slas ''users'' [''live_data_tables'', ''core_tables'']
     = Inr (Some (Val sample_sla_entry))"
  "find_sla sample_slas ''orders'' [''live_data_tables'', ''core_tables''] = Inr None"
  by (simp_all add: sample_slas_def)

lemma sample_sla_durations:
  "sample_sla_entry \<noteq> []"
  "parse_duration_of (sample_env row) (get_or sample_sla_entry ''max_staleness'' (Val ''24h''))
     = Inr (Finite 24)"
  "parse_duration_of (sample_env row)
     (get_or sample_sla_entry ''late_arrival_threshold'' (Val ''12h'')) = Inr (Finite 12)"
  by (simp_all add: sample_sla_entry_def get_or_def parse_duration_of_def sample_durations)


lemma parse_duration_cong:
  assumes "py_float e = py_float e'" "float_mul e = float_mul e'" "float_div e = float_div e'"
  shows "parse_duration e s = parse_duration e' s"
    and "parse_duration_of e v = parse_duration_of e' v"
proof -
  show "parse_duration e s = parse_duration e' s"
    using assms by (simp add: parse_duration_def split: option.split)
  then show "parse_duration_of e v = parse_duration_of e' v" for v
    using assms by (simp add: parse_duration_of_def parse_duration_def split: nullable.split option.split)
qed

lemma fresh_fail_env_fields:
  "sla_config fresh_fail_env = Val \<lparr>freshness_slas = Val sample_slas\<rparr>"
  "query_freshness fresh_fail_env t = Inl (NotFound t)"
  "parse_duration_of fresh_fail_env v = parse_duration_of (sample_env (sample_row 1 30)) v"
proof -
  show "sla_config fresh_fail_env = Val \<lparr>freshness_slas = Val sample_slas\<rparr>"
    and "query_freshness fresh_fail_env t = Inl (NotFound t)"
    by (simp_all add: fresh_fail_env_def sample_env_def)
  show "parse_duration_of fresh_fail_env v = parse_duration_of (sample_env (sample_row 1 30)) v"
    by (rule parse_duration_cong) (simp_all add: fresh_fail_env_def)
qed

text \<open>
  Claim C2, as amended. In the schema stage, every exception of the table lookup is a hard
  error: \<^verbatim>\<open>NotFound\<close> gives the message that the table is not in the dataset, any other
  exception the message that schema validation failed, and the result has not passed. In
  the data-constraints stage an exception of the aggregate query, \<^verbatim>\<open>NotFound\<close> included,
  leaves the result passed and without error, and is reported as a warning. The freshness
  stage never produces a hard error; an exception of its query is a warning. Where the
  sections of the configuration that a stage reads are mappings (an absent key counting
  as an empty one), missing configuration gives one warning and no error: no contract for
  the table among the contracts once the lookup has succeeded, an empty merge of the
  global rules and the rules of the table, and no SLA entry for the table, or a null or
  empty one. What a null section does is not part of the statement.
\<close>

theorem stage_exception_policy:
  "(get_table e t = Inl ex \<longrightarrow>
      \<not> passed (validate_schema_compliance e t)
      \<and> warnings (validate_schema_compliance e t) = []
      \<and> errors (validate_schema_compliance e t) =
          [case ex of NotFound s \<Rightarrow> TableNotFound t (dataset_id e)
                    | _ \<Rightarrow> SchemaValidationFailed (exn_text ex)])
   \<and> (get_table e t = Inr cols \<and> table_contracts e = Val cdoc \<and> tables cdoc = Val cs
       \<and> map_of cs t = None \<longrightarrow>
      passed (validate_schema_compliance e t)
      \<and> errors (validate_schema_compliance e t) = []
      \<and> warnings (validate_schema_compliance e t) = [NoSchemaContract t])
   \<and> (quality_rules e = Val qdoc \<and> table_rules qdoc = Val by_table
       \<and> global_rules qdoc = Val g \<and> get_or by_table t (Val []) = Val tr
       \<and> get_or (dict_merge g tr) ''patterns'' (Val []) = Val ps
       \<and> get_or (dict_merge g tr) ''timestamps'' (Val []) = Val ts \<and> ts \<noteq> []
       \<and> query_constraints e t = Inl ex \<longrightarrow>
      passed (validate_data_constraints e t)
      \<and> errors (validate_data_constraints e t) = []
      \<and> warnings (validate_data_constraints e t) = [CouldNotValidateTimestamps (exn_text ex)])
   \<and> (quality_rules e = Val qdoc \<and> table_rules qdoc = Val by_table
       \<and> global_rules qdoc = Val g \<and> get_or by_table t (Val []) = Val tr
       \<and> dict_merge g tr = [] \<longrightarrow>
      passed (validate_data_constraints e t)
      \<and> errors (validate_data_constraints e t) = []
      \<and> warnings (validate_data_constraints e t) = [NoQualityRules t])
   \<and> passed (validate_freshness_sla e t)
   \<and> errors (validate_freshness_sla e t) = []
   \<and> (sla_config e = Val sdoc \<and> freshness_slas sdoc = Val slas
       \<and> find_sla slas t [''live_data_tables'', ''core_tables''] = Inr (Some (Val entry))
       \<and> entry \<noteq> []
       \<and> parse_duration_of e (get_or entry ''max_staleness'' (Val ''24h'')) = Inr M
       \<and> parse_duration_of e (get_or entry ''late_arrival_threshold'' (Val ''12h'')) = Inr L
       \<and> query_freshness e t = Inl ex \<longrightarrow>
      warnings (validate_freshness_sla e t) = [CouldNotCheckFreshness (exn_text ex)])
   \<and> (sla_config e = Val sdoc \<and> freshness_slas sdoc = Val slas
       \<and> (find_sla slas t [''live_data_tables'', ''core_tables''] = Inr None
          \<or> find_sla slas t [''live_data_tables'', ''core_tables''] = Inr (Some Null)
          \<or> find_sla slas t [''live_data_tables'', ''core_tables''] = Inr (Some (Val []))) \<longrightarrow>
      warnings (validate_freshness_sla e t) = [NoSLAConfig t])"
proof (intro conjI impI)
  assume "get_table e t = Inl ex"
  then show "\<not> passed (validate_schema_compliance e t)"
    and "warnings (validate_schema_compliance e t) = []"
    and "errors (validate_schema_compliance e t) =
          [case ex of NotFound s \<Rightarrow> TableNotFound t (dataset_id e)
                    | _ \<Rightarrow> SchemaValidationFailed (exn_text ex)]"
    by (rule schema_lookup_raises)+
next
  assume "get_table e t = Inr cols \<and> table_contracts e = Val cdoc \<and> tables cdoc = Val cs
          \<and> map_of cs t = None"
  then show "passed (validate_schema_compliance e t)"
    and "errors (validate_schema_compliance e t) = []"
    and "warnings (validate_schema_compliance e t) = [NoSchemaContract t]"
    using schema_no_contract [of e t cols cdoc cs] by simp_all
next
  assume "quality_rules e = Val qdoc \<and> table_rules qdoc = Val by_table
       \<and> global_rules qdoc = Val g \<and> get_or by_table t (Val []) = Val tr
       \<and> get_or (dict_merge g tr) ''patterns'' (Val []) = Val ps
       \<and> get_or (dict_merge g tr) ''timestamps'' (Val []) = Val ts \<and> ts \<noteq> []
       \<and> query_constraints e t = Inl ex"
  then show "passed (validate_data_constraints e t)"
    and "errors (validate_data_constraints e t) = []"
    and "warnings (validate_data_constraints e t) = [CouldNotValidateTimestamps (exn_text ex)]"
    using constraints_query_raises [of e qdoc by_table g t tr ps ts ex] by simp_all
next
  assume "quality_rules e = Val qdoc \<and> table_rules qdoc = Val by_table
       \<and> global_rules qdoc = Val g \<and> get_or by_table t (Val []) = Val tr
       \<and> dict_merge g tr = []"
  then show "passed (validate_data_constraints e t)"
    and "errors (validate_data_constraints e t) = []"
    and "warnings (validate_data_constraints e t) = [NoQualityRules t]"
    using constraints_no_rules [of e qdoc by_table g t tr] by simp_all
next
  show "passed (validate_freshness_sla e t)" and "errors (validate_freshness_sla e t) = []"
    by (rule freshness_never_fails)+
next
  assume "sla_config e = Val sdoc \<and> freshness_slas sdoc = Val slas
       \<and> find_sla slas t [''live_data_tables'', ''core_tables''] = Inr (Some (Val entry))
       \<and> entry \<noteq> []
       \<and> parse_duration_of e (get_or entry ''max_staleness'' (Val ''24h'')) = Inr M
       \<and> parse_duration_of e (get_or entry ''late_arrival_threshold'' (Val ''12h'')) = Inr L
       \<and> query_freshness e t = Inl ex"
  then show "warnings (validate_freshness_sla e t) = [CouldNotCheckFreshness (exn_text ex)]"
    using freshness_query_raises [of e sdoc slas t entry M L ex] by simp
next
  assume "sla_config e = Val sdoc \<and> freshness_slas sdoc = Val slas
       \<and> (find_sla slas t [''live_data_tables'', ''core_tables''] = Inr None
          \<or> find_sla slas t [''live_data_tables'', ''core_tables''] = Inr (Some Null)
          \<or> find_sla slas t [''live_data_tables'', ''core_tables''] = Inr (Some (Val [])))"
  then show "warnings (validate_freshness_sla e t) = [NoSLAConfig t]"
    using freshness_no_sla [of e sdoc slas t] by simp
qed

text \<open>
  The theorem on the sample warehouse: the lookup of \<^verbatim>\<open>parts\<close> times out and the lookup
  of \<^verbatim>\<open>ghost\<close> is \<^verbatim>\<open>NotFound\<close>, both hard errors; \<^verbatim>\<open>orders\<close> has no contract and no
  SLA and its constraint query fails, all warnings; without rules \<^verbatim>\<open>users\<close> gets the
  warning for missing rules; a failing freshness query is a warning.
\<close>

theorem stage_exception_policy_witness:
  "get_table (sample_env (sample_row 1 30)) ''parts'' = Inl (OtherError ''timeout'')
   \<and> \<not> passed (validate_schema_compliance (sample_env (sample_row 1 30)) ''parts'')
   \<and> errors (validate_schema_compliance (sample_env (sample_row 1 30)) ''parts'')
        = [SchemaValidationFailed ''timeout'']
   \<and> get_table (sample_env (sample_row 1 30)) ''ghost'' = Inl (NotFound ''ghost'')
   \<and> errors (validate_schema_compliance (sample_env (sample_row 1 30)) ''ghost'')
        = [TableNotFound ''ghost'' ''prod'']
   \<and> get_table (sample_env (sample_row 1 30)) ''orders'' = Inr [(''id'', ''INTEGER'')]
   \<and> passed (validate_schema_compliance (sample_env (sample_row 1 30)) ''orders'')
   \<and> warnings (validate_schema_compliance (sample_env (sample_row 1 30)) ''orders'')
        = [NoSchemaContract ''orders'']
   \<and> query_constraints (sample_env (sample_row 1 30)) ''orders'' = Inl (NotFound ''orders'')
   \<and> passed (validate_data_constraints (sample_env (sample_row 1 30)) ''orders'')
   \<and> warnings (validate_data_constraints (sample_env (sample_row 1 30)) ''orders'')
        = [CouldNotValidateTimestamps ''orders'']
   \<and> passed (validate_data_constraints sample_env_no_rules ''users'')
   \<and> warnings (validate_data_constraints sample_env_no_rules ''users'') = [NoQualityRules ''users'']
   \<and> query_freshness fresh_fail_env ''users'' = Inl (NotFound ''users'')
   \<and> passed (validate_freshness_sla fresh_fail_env ''users'')
   \<and> warnings (validate_freshness_sla fresh_fail_env ''users'') = [CouldNotCheckFreshness ''users'']
   \<and> warnings (validate_freshness_sla (sample_env (sample_row 1 30)) ''orders'')
        = [NoSLAConfig ''orders'']"
proof -
  let ?e = "sample_env (sample_row 1 30)"
  have parts: "get_table ?e ''parts'' = Inl (OtherError ''timeout'')"
    and ghost: "get_table ?e ''ghost'' = Inl (NotFound ''ghost'')"
    and orders: "get_table ?e ''orders'' = Inr [(''id'', ''INTEGER'')]"
    and orders_query: "query_constraints ?e ''orders'' = Inl (NotFound ''orders'')"
    and fail_query: "query_freshness fresh_fail_env ''users'' = Inl (NotFound ''users'')"
    by (simp_all add: sample_env_def fresh_fail_env_def)
  have s1: "\<not> passed (validate_schema_compliance ?e ''parts'')
      \<and> errors (validate_schema_compliance ?e ''parts'') = [SchemaValidationFailed ''timeout'']"
    using parts
      stage_exception_policy [where e = ?e and t = "''parts''" and ex = "OtherError ''timeout''",
        THEN conjunct1]
    by simp
  have s2: "errors (validate_schema_compliance ?e ''ghost'') = [TableNotFound ''ghost'' ''prod'']"
    using ghost
      stage_exception_policy [where e = ?e and t = "''ghost''" and ex = "NotFound ''ghost''",
        THEN conjunct1]
    by (simp add: sample_env_fields)
  have s3: "passed (validate_schema_compliance ?e ''orders'')
      \<and> warnings (validate_schema_compliance ?e ''orders'') = [NoSchemaContract ''orders'']"
    using orders
      stage_exception_policy [where e = ?e and t = "''orders''"
        and cols = "[(''id'', ''INTEGER'')]"
        and cdoc = "\<lparr>tables = Val sample_contracts\<rparr>" and cs = sample_contracts,
        THEN conjunct2, THEN conjunct1]
    by (simp add: sample_env_fields sample_contracts_def)
  have d1: "passed (validate_data_constraints ?e ''orders'')
      \<and> warnings (validate_data_constraints ?e ''orders'') = [CouldNotValidateTimestamps ''orders'']"
    using orders_query
      stage_exception_policy [where e = ?e and t = "''orders''" and ex = "NotFound ''orders''"
        and qdoc = sample_rules and by_table = "[]"
        and g = "[(''timestamps'', Val [(''created_at_required'', ''true'')])]"
        and tr = "[]" and ps = "[]" and ts = "[(''created_at_required'', ''true'')]",
        THEN conjunct2, THEN conjunct2, THEN conjunct1]
    by (simp add: sample_env_fields sample_rules_def dict_merge_def get_or_def)
  have d2: "passed (validate_data_constraints sample_env_no_rules ''users'')
      \<and> warnings (validate_data_constraints sample_env_no_rules ''users'') = [NoQualityRules ''users'']"
    using
      stage_exception_policy [where e = sample_env_no_rules and t = "''users''"
        and qdoc = "\<lparr>global_rules = Val [], table_rules = Val []\<rparr>" and by_table = "[]"
        and g = "[]" and tr = "[]",
        THEN conjunct2, THEN conjunct2, THEN conjunct2, THEN conjunct1]
    by (simp add: sample_env_no_rules_def sample_env_def dict_merge_def get_or_def)
  have f1: "passed (validate_freshness_sla fresh_fail_env ''users'')"
    using
      stage_exception_policy [where e = fresh_fail_env and t = "''users''",
        THEN conjunct2, THEN conjunct2, THEN conjunct2, THEN conjunct2, THEN conjunct1]
    by simp
  have f2: "warnings (validate_freshness_sla fresh_fail_env ''users'')
      = [CouldNotCheckFreshness ''users'']"
    using fail_query
      stage_exception_policy [where e = fresh_fail_env and t = "''users''"
        and ex = "NotFound ''users''"
        and sdoc = "\<lparr>freshness_slas = Val sample_slas\<rparr>" and slas = sample_slas
        and entry = sample_sla_entry and M = "Finite 24" and L = "Finite 12",
        THEN conjunct2, THEN conjunct2, THEN conjunct2, THEN conjunct2, THEN conjunct2,
        THEN conjunct2, THEN conjunct1]
    by (simp add: fresh_fail_env_fields sample_find_sla sample_sla_durations
          del: find_sla.simps)
  have f3: "warnings (validate_freshness_sla ?e ''orders'') = [NoSLAConfig ''orders'']"
    using
      stage_exception_policy [where e = ?e and t = "''orders''"
        and sdoc = "\<lparr>freshness_slas = Val sample_slas\<rparr>" and slas = sample_slas,
        THEN conjunct2, THEN conjunct2, THEN conjunct2, THEN conjunct2, THEN conjunct2,
        THEN conjunct2, THEN conjunct2]
    by (simp add: sample_env_fields sample_find_sla del: find_sla.simps)
  show ?thesis
    using parts ghost orders orders_query fail_query s1 s2 s3 d1 d2 f1 f2 f3 by simp
qed

text \<open>
  Claim C2 as stated fails on both sides. An exception other than \<^verbatim>\<open>NotFound\<close> in the
  schema stage (the timeout on \<^verbatim>\<open>parts\<close>) is a hard error, not a warning; and
  \<^verbatim>\<open>NotFound\<close> in the data-constraints stage (the query on \<^verbatim>\<open>orders\<close>) is a warning on
  a passed result, not a hard error.
\<close>

theorem other_exception_is_hard_error:
  "get_table (sample_env (sample_row 1 30)) ''parts'' = Inl (OtherError ''timeout'')
   \<and> \<not> passed (validate_schema_compliance (sample_env (sample_row 1 30)) ''parts'')
   \<and> errors (validate_schema_compliance (sample_env (sample_row 1 30)) ''parts'')
        = [SchemaValidationFailed ''timeout'']
   \<and> query_constraints (sample_env (sample_row 1 30)) ''orders'' = Inl (NotFound ''orders'')
   \<and> passed (validate_data_constraints (sample_env (sample_row 1 30)) ''orders'')
   \<and> errors (validate_data_constraints (sample_env (sample_row 1 30)) ''orders'') = []
   \<and> warnings (validate_data_constraints (sample_env (sample_row 1 30)) ''orders'')
        = [CouldNotValidateTimestamps ''orders'']"
  using
    schema_lookup_raises [of "sample_env (sample_row 1 30)" "''parts''" "OtherError ''timeout''"]
    constraints_query_raises [of "sample_env (sample_row 1 30)" sample_rules "[]"
      "[(''timestamps'', Val [(''created_at_required'', ''true'')])]" "''orders''" "[]"
      "[]" "[(''created_at_required'', ''true'')]" "NotFound ''orders''"]
  by (simp add: sample_env_def sample_rules_def dict_merge_def get_or_def)

text \<open>
  A section that is present and null is not missing configuration in the sense of the
  theorem above: the handler \<^verbatim>\<open>except Exception\<close> of the schema stage and of the
  data-constraints stage turns the exception it causes into a hard error.
\<close>

lemma null_sections_are_hard_errors:
  "\<not> passed (validate_schema_compliance null_sections_env ''users'')"
  "\<not> passed (validate_data_constraints null_sections_env ''users'')"
  using
    schema_null_tables [of null_sections_env "''users''"
      "[(''id'', ''STRING''), (''email'', ''STRING'')]" "\<lparr>tables = Null\<rparr>"]
    constraints_null_global_rules [of null_sections_env
      "\<lparr>global_rules = Null, table_rules = Val []\<rparr>" "[]" "''users''"]
  by (simp_all add: null_sections_env_def sample_env_def)

text \<open>
  Claim C9, as amended. For a table with a non-empty SLA entry whose two durations parse to
  the floats \<open>M\<close> and \<open>L\<close>, and whose freshness query returns a first row with a
  positive count: the timestamp taken is \<^verbatim>\<open>MAX(updated_at)\<close> when it is present and
  \<^verbatim>\<open>MAX(created_at)\<close> otherwise, staleness is the float that Python's division by 3600
  gives for the seconds between that timestamp and the clock reading, and the result
  carries exactly the stale warning when staleness is greater than \<open>M\<close>, exactly the
  approaching-staleness warning when it is not greater than \<open>M\<close> but greater than
  \<open>L\<close>, and no warning otherwise. The result passes and has no error in each case.
  The statement holds for whatever the float operations of the environment are.
\<close>

theorem freshness_classification:
  assumes "sla_config e = Val doc" and "freshness_slas doc = Val slas"
    and "find_sla slas t [''live_data_tables'', ''core_tables''] = Inr (Some (Val entry))"
    and "entry \<noteq> []"
    and "parse_duration_of e (get_or entry ''max_staleness'' (Val ''24h'')) = Inr M"
    and "parse_duration_of e (get_or entry ''late_arrival_threshold'' (Val ''12h'')) = Inr L"
    and "query_freshness e t = Inr (row # rest)"
    and "row_count row > 0"
    and "(case latest_updated_at row of Some u \<Rightarrow> Some u | None \<Rightarrow> latest_created_at row) = Some ts"
    and "st = float_div e (total_seconds e (utcnow e t - wall ts)) (Finite 3600)"
  shows "passed (validate_freshness_sla e t) \<and> errors (validate_freshness_sla e t) = []
    \<and> (float_gt st M \<longrightarrow> warnings (validate_freshness_sla e t) = [DataStale st M])
    \<and> (\<not> float_gt st M \<and> float_gt st L \<longrightarrow>
          warnings (validate_freshness_sla e t) = [ApproachingStaleness st L])
    \<and> (\<not> float_gt st M \<and> \<not> float_gt st L \<longrightarrow> warnings (validate_freshness_sla e t) = [])"
proof -
  have ts: "latest_timestamp row = Some ts"
    using assms(9) by (simp add: latest_timestamp_def)
  have st: "staleness_hours_actual e (utcnow e t) ts = st"
    using assms(10) by (simp add: staleness_hours_actual_eq)
  have "warnings (validate_freshness_sla e t) = freshness_warnings st M L"
    using freshness_row_checked [OF assms(1-8) ts] st by simp
  then show ?thesis
    by (simp add: freshness_never_fails freshness_warnings_def)
qed

lemma sample_staleness:
  "exact_div (exact_seconds (100 * hour - (100 - h) * hour)) (Finite 3600) = Finite (of_int h)"
  by (simp add: exact_div_def exact_seconds_def hour_def algebra_simps)

text \<open>
  The theorem on the sample table with an SLA of 24h and a late threshold of 12h: last
  update 30 hours ago gives the stale warning, 13 hours ago the approaching-staleness
  warning, 10 hours ago no warning.
\<close>

theorem freshness_classification_witness:
  "warnings (validate_freshness_sla (sample_env (sample_row 40 30)) ''users'')
      = [DataStale (Finite 30) (Finite 24)]
   \<and> warnings (validate_freshness_sla (sample_env (sample_row 40 13)) ''users'')
      = [ApproachingStaleness (Finite 13) (Finite 12)]
   \<and> warnings (validate_freshness_sla (sample_env (sample_row 40 10)) ''users'') = []
   \<and> passed (validate_freshness_sla (sample_env (sample_row 40 30)) ''users'')"
  using
    freshness_classification [of "sample_env (sample_row 40 30)" "\<lparr>freshness_slas = Val sample_slas\<rparr>" sample_slas "''users''"
      sample_sla_entry "Finite 24" "Finite 12"
      "sample_row 40 30" "[]" "\<lparr>wall = (100 - 30) * hour, tzoffset = Some 0\<rparr>" "Finite 30"]
    freshness_classification [of "sample_env (sample_row 40 13)" "\<lparr>freshness_slas = Val sample_slas\<rparr>" sample_slas "''users''"
      sample_sla_entry "Finite 24" "Finite 12"
      "sample_row 40 13" "[]" "\<lparr>wall = (100 - 13) * hour, tzoffset = Some 0\<rparr>" "Finite 13"]
    freshness_classification [of "sample_env (sample_row 40 10)" "\<lparr>freshness_slas = Val sample_slas\<rparr>" sample_slas "''users''"
      sample_sla_entry "Finite 24" "Finite 12"
      "sample_row 40 10" "[]" "\<lparr>wall = (100 - 10) * hour, tzoffset = Some 0\<rparr>" "Finite 10"]
    sample_staleness [of 30] sample_staleness [of 13] sample_staleness [of 10]
  by (simp add: sample_env_fields sample_find_sla sample_sla_durations sample_row_def
        float_gt_def del: find_sla.simps)

text \<open>
  Claim C9 as stated fails where \<^verbatim>\<open>MAX(created_at)\<close> is more recent than
  \<^verbatim>\<open>MAX(updated_at)\<close>. Created one hour and updated thirty hours before the clock
  reading, staleness from the more recent maximum is one hour, which calls for no warning
  under 24h and 12h; the stage takes \<^verbatim>\<open>updated_at\<close> and reports the table stale at 30
  hours.
\<close>

theorem staleness_not_most_recent:
  "latest_created_at (sample_row 1 30) = Some \<lparr>wall = 99 * hour, tzoffset = Some 0\<rparr>
   \<and> latest_updated_at (sample_row 1 30) = Some \<lparr>wall = 70 * hour, tzoffset = Some 0\<rparr>
   \<and> utcnow (sample_env (sample_row 1 30)) ''users'' = 100 * hour
   \<and> spec_staleness_hours (100 * hour) (sample_row 1 30) = Some 1
   \<and> freshness_warnings (Finite 1) (Finite 24) (Finite 12) = []
   \<and> warnings (validate_freshness_sla (sample_env (sample_row 1 30)) ''users'')
        = [DataStale (Finite 30) (Finite 24)]"
  using
    freshness_row_checked [of "sample_env (sample_row 1 30)" "\<lparr>freshness_slas = Val sample_slas\<rparr>" sample_slas "''users''"
      sample_sla_entry "Finite 24" "Finite 12"
      "sample_row 1 30" "[]" "\<lparr>wall = (100 - 30) * hour, tzoffset = Some 0\<rparr>"]
    sample_staleness [of 30]
  by (simp add: sample_env_fields sample_find_sla sample_sla_durations sample_row_def
        latest_timestamp_def staleness_hours_actual_eq spec_staleness_hours_def
        freshness_warnings_def float_gt_def hour_def del: find_sla.simps)

section \<open>Properties of the model validators\<close>

text \<open>
  Claim C4. With absent quantities read as 0, as the validator reads them: where
  \<^verbatim>\<open>quantity_available\<close> differs from on hand minus allocated, validation behaves exactly
  as on the record that carries the derived value, so the difference itself is never an
  error, and a record that is accepted comes back with \<^verbatim>\<open>quantity_available\<close> set to on
  hand minus allocated. Where allocated exceeds on hand the validator raises the
  \<^verbatim>\<open>ValueError\<close> for it. Whether a record is accepted depends on allocated, on hand and
  the reorder fields only.
\<close>

theorem inventory_derivation:
  "(or_zero (quantity_available m) \<noteq> or_zero (quantity_on_hand m) - or_zero (quantity_allocated m) \<longrightarrow>
      validate_inventory_consistency m
        = validate_inventory_consistency
            (m\<lparr>quantity_available :=
                 Some (or_zero (quantity_on_hand m) - or_zero (quantity_allocated m))\<rparr>)
      \<and> (\<forall>m'. validate_inventory_consistency m = Inr m' \<longrightarrow>
            m' = m\<lparr>quantity_available :=
                      Some (or_zero (quantity_on_hand m) - or_zero (quantity_allocated m))\<rparr>))
   \<and> (or_zero (quantity_allocated m) > or_zero (quantity_on_hand m) \<longrightarrow>
        validate_inventory_consistency m
          = Inl (ValueError ''Allocated quantity cannot exceed quantity on hand''))
   \<and> ((\<exists>m'. validate_inventory_consistency m = Inr m') =
        (or_zero (quantity_allocated m) \<le> or_zero (quantity_on_hand m)
         \<and> \<not> (truthy_int (reorder_point m) \<and> truthy_int (max_stock_level m)
               \<and> or_zero (reorder_point m) \<ge> or_zero (max_stock_level m))
         \<and> \<not> (truthy_int (reorder_quantity m) \<and> truthy_int (max_stock_level m)
               \<and> or_zero (reorder_quantity m) > or_zero (max_stock_level m))))"
  by (auto simp add: validate_inventory_consistency_def Let_def or_zero_def)

text \<open>
  The two records of the specification: 25 on hand and 3 allocated come back with 22
  available; 10 on hand and 15 allocated are rejected.
\<close>

theorem inventory_derivation_witness:
  "or_zero (quantity_available (sample_inventory 25 3 0))
      \<noteq> or_zero (quantity_on_hand (sample_inventory 25 3 0))
          - or_zero (quantity_allocated (sample_inventory 25 3 0))
   \<and> validate_inventory_consistency (sample_inventory 25 3 0) = Inr (sample_inventory 25 3 22)
   \<and> or_zero (quantity_allocated (sample_inventory 10 15 0))
        > or_zero (quantity_on_hand (sample_inventory 10 15 0))
   \<and> validate_inventory_consistency (sample_inventory 10 15 0)
        = Inl (ValueError ''Allocated quantity cannot exceed quantity on hand'')"
  using inventory_derivation [of "sample_inventory 25 3 0"]
    inventory_derivation [of "sample_inventory 10 15 0"]
  by (auto simp add: sample_inventory_def or_zero_def truthy_int_def)











lemma thresholds_band: "spec_band l = Some b \<Longrightarrow> get_or thresholds l (0, 1) = b"
  by (auto simp add: get_or_def thresholds_def split: if_splits)

lemma spec_band_nonempty: "spec_band l = Some b \<Longrightarrow> l \<noteq> []"
  by (auto split: if_splits)

text \<open>
  Claim C7. For a risk assessment with a score and a level of the four bands, the validator
  raises its \<^verbatim>\<open>ValueError\<close> exactly when the score is outside the band of the level, and
  returns the record otherwise; in particular level \<^verbatim>\<open>high\<close> with a score below 0.6 or
  above 0.9 is rejected. The ends of the bands are the float literals of the source, so
  that the floats 0.6 and 0.9 themselves are inside the band of \<^verbatim>\<open>high\<close>.
\<close>

theorem risk_band_policy:
  assumes "overall_risk_score m = Some s" and "risk_level m = Some l"
    and "spec_band l = Some (lo, hi)"
  shows "((\<exists>ex. validate_risk_consistency m = Inl (ValueError ex)) = (s < lo \<or> hi < s))
    \<and> (lo \<le> s \<and> s \<le> hi \<longrightarrow> validate_risk_consistency m = Inr m)
    \<and> (l = ''high'' \<and> (s < float_0_6 \<or> float_0_9 < s) \<longrightarrow>
          (\<exists>ex. validate_risk_consistency m = Inl (ValueError ex)))"
  using assms thresholds_band [OF assms(3)] spec_band_nonempty [OF assms(3)]
  by (auto simp add: validate_risk_consistency_def)

text \<open>
  Level \<^verbatim>\<open>high\<close> accepts the floats 0.8, 0.6 and 0.9 and rejects the floats 0.95 and
  0.5; level \<^verbatim>\<open>low\<close> accepts 0.25.
\<close>

theorem risk_band_policy_witness:
  "validate_risk_consistency (sample_risk float_0_8 ''high'') = Inr (sample_risk float_0_8 ''high'')
   \<and> validate_risk_consistency (sample_risk float_0_6 ''high'') = Inr (sample_risk float_0_6 ''high'')
   \<and> validate_risk_consistency (sample_risk float_0_9 ''high'') = Inr (sample_risk float_0_9 ''high'')
   \<and> (\<exists>ex. validate_risk_consistency
              (sample_risk (4278419646001971 / 4503599627370496) ''high'') = Inl (ValueError ex))
   \<and> (\<exists>ex. validate_risk_consistency (sample_risk (1/2) ''high'') = Inl (ValueError ex))
   \<and> validate_risk_consistency (sample_risk (1/4) ''low'') = Inr (sample_risk (1/4) ''low'')"
  using risk_band_policy [of "sample_risk float_0_8 ''high''" float_0_8 "''high''" float_0_6 float_0_9]
    risk_band_policy [of "sample_risk float_0_6 ''high''" float_0_6 "''high''" float_0_6 float_0_9]
    risk_band_policy [of "sample_risk float_0_9 ''high''" float_0_9 "''high''" float_0_6 float_0_9]
    risk_band_policy [of "sample_risk (4278419646001971 / 4503599627370496) ''high''"
      "4278419646001971 / 4503599627370496" "''high''" float_0_6 float_0_9]
    risk_band_policy [of "sample_risk (1/2) ''high''" "1/2" "''high''" float_0_6 float_0_9]
    risk_band_policy [of "sample_risk (1/4) ''low''" "1/4" "''low''" 0 float_0_3]
  by (simp add: sample_risk_def float_0_3_def float_0_6_def float_0_8_def float_0_9_def)

text \<open>
  No float literal of the table is the decimal it is written as: 0.6 lies below and 0.9
  above its decimal.
\<close>

lemma float_literals_and_decimals:
  "float_0_6 < 6 / 10" "9 / 10 < float_0_9" "float_0_3 < 3 / 10" "2 / 10 < float_0_2"
  "float_0_7 < 7 / 10" "8 / 10 < float_0_8"
  by (simp_all add: float_0_2_def float_0_3_def float_0_6_def float_0_7_def float_0_8_def
        float_0_9_def)

text \<open>
  A status whose timestamp or date is missing is a \<^verbatim>\<open>ValueError\<close> on every record, from
  \<^verbatim>\<open>validate_status_transitions\<close> or, when the dates are inconsistent as well, from
  \<^verbatim>\<open>validate_prediction_dates\<close> before it.
\<close>

lemma missing_status_field_is_value_error:
  assumes "status m = Some ''acknowledged'' \<and> acknowledged_at m = None
           \<or> status m = Some ''scheduled'' \<and> scheduled_maintenance_date m = None
           \<or> status m = Some ''completed'' \<and> completed_at m = None"
  shows "\<exists>msg. MaintenancePredictions_validate m = Inl (ValueError msg)"
  using assms
  by (auto simp add: MaintenancePredictions_validate_def bind_exn_def
        validate_status_transitions_def validate_prediction_dates_def Let_def
        split: option.split)

text \<open>
  The fifth validator of \<^verbatim>\<open>MaintenancePredictions\<close> raises on every argument, so the
  chain of validators never returns a value.
\<close>

lemma prediction_never_accepted: "MaintenancePredictions_validate m \<noteq> Inr r"
  by (simp add: MaintenancePredictions_validate_def bind_exn_def validate_symptoms_limit_def
        validate_expiration_reasonable_def validate_risk_financial_consistency_def
        split: sum.split)

text \<open>
  Claim C6, evaluated on the code. A prediction of status \<^verbatim>\<open>completed\<close> without
  \<^verbatim>\<open>completed_at\<close> is rejected by the \<^verbatim>\<open>ValueError\<close> of \<^verbatim>\<open>validate_status_transitions\<close>,
  as the claim says, and so are \<^verbatim>\<open>acknowledged\<close> without \<^verbatim>\<open>acknowledged_at\<close> and
  \<^verbatim>\<open>scheduled\<close> without \<^verbatim>\<open>scheduled_maintenance_date\<close>. The same prediction with \<^verbatim>\<open>completed_at\<close> set passes that validator,
  and validation then ends in the \<^verbatim>\<open>NameError\<close> of \<^verbatim>\<open>validate_symptoms_limit\<close> instead of
  returning the record.
\<close>

theorem completed_prediction_raises_name_error:
  "MaintenancePredictions_validate (sample_prediction ''completed'' None)
     = Inl (ValueError ''completed_at required when status is completed'')
   \<and> MaintenancePredictions_validate (sample_prediction ''acknowledged'' None)
     = Inl (ValueError ''acknowledged_at required when status is acknowledged'')
   \<and> MaintenancePredictions_validate (sample_prediction ''scheduled'' None)
     = Inl (ValueError ''scheduled_maintenance_date required when status is scheduled'')
   \<and> validate_status_transitions (sample_prediction ''completed'' (Some (20348 * 24 * hour)))
     = Inr (sample_prediction ''completed'' (Some (20348 * 24 * hour)))
   \<and> MaintenancePredictions_validate (sample_prediction ''completed'' (Some (20348 * 24 * hour)))
     = Inl (NameError ''name v is not defined'')"
  by (simp add: MaintenancePredictions_validate_def bind_exn_def validate_symptoms_limit_def
        validate_expiration_reasonable_def validate_risk_financial_consistency_def
        validate_status_transitions_def validate_prediction_dates_def sample_prediction_def
        Let_def)

lemma profile_never_accepted: "StatisticalProfile_validate m = Inl (NameError ''name v is not defined'')"
  by (simp add: StatisticalProfile_validate_def bind_exn_def
        validate_std_deviation_non_negative_def)

text \<open>
  Claim C8, evaluated on the code. \<^verbatim>\<open>validate_percentile_order\<close> alone accepts the
  percentiles 25, 75, 95 and rejects 80 above 50; validation of a statistical profile runs
  \<^verbatim>\<open>validate_std_deviation_non_negative\<close> first and ends in its \<^verbatim>\<open>NameError\<close> on both
  records.
\<close>

theorem ordered_percentiles_raise_name_error:
  "validate_percentile_order (sample_profile 25 75 (Some 95)) = Inr (sample_profile 25 75 (Some 95))
   \<and> StatisticalProfile_validate (sample_profile 25 75 (Some 95))
       = Inl (NameError ''name v is not defined'')
   \<and> validate_percentile_order (sample_profile 80 50 None)
       = Inl (ValueError ''25th percentile cannot exceed 75th percentile'')
   \<and> StatisticalProfile_validate (sample_profile 80 50 None)
       = Inl (NameError ''name v is not defined'')"
  by (simp add: StatisticalProfile_validate_def bind_exn_def
        validate_std_deviation_non_negative_def validate_percentile_order_def sample_profile_def)

text \<open>
  On its own, \<^verbatim>\<open>validate_percentile_order\<close> raises exactly when the 25th percentile
  exceeds the 75th or the 75th exceeds the 95th, both being present.
\<close>

lemma percentile_order_alone:
  "(\<exists>ex. validate_percentile_order m = Inl ex) =
     ((\<exists>a b. percentile_25 m = Some a \<and> percentile_75 m = Some b \<and> a > b)
      \<or> (\<exists>b c. percentile_75 m = Some b \<and> percentile_95 m = Some c \<and> b > c))"
  by (auto simp add: validate_percentile_order_def Let_def split: option.splits)

end
